theory Spec2Isabelle
  imports Main "HOL-Library.Sublist"
begin

section \<open>Dependency objects and the lock tree (meteor-npm.js)\<close>

text \<open>
  A dependency object is what \<^verbatim>\<open>npm ls --json\<close> and \<^verbatim>\<open>npm-shrinkwrap.json\<close> hold for one
  package: the optional string fields \<^verbatim>\<open>version\<close>, \<^verbatim>\<open>from\<close> and \<^verbatim>\<open>resolved\<close>, any other
  fields (kept here as key/value pairs) and an optional object of sub-dependencies. A
  JavaScript object is an association list in key order; a field that is absent (reads as
  \<^verbatim>\<open>undefined\<close>) is \<open>None\<close>. The objects that the code builds have the same shape, so input
  and output share one type.
\<close>

datatype dep_obj =
  DepObj (dep_version: "string option") (dep_from: "string option")
         (dep_resolved: "string option") (dep_other: "(string \<times> string) list")
         (dep_dependencies: "(string \<times> dep_obj) list option")

type_synonym path = "string list"

record npm_result =
  success :: bool
  error :: string
  stdout :: string
  stderr :: string

datatype fsnode = File string | Dir "(string \<times> fsnode) list"

datatype json = JString string | JObject "(string \<times> json) list"

text \<open>
  The collaborators of meteor-npm.js that live outside it are parameters of the model:
  \<^verbatim>\<open>utils.isUrlWithSha\<close> (applied to a field that may be \<^verbatim>\<open>undefined\<close>),
  \<^verbatim>\<open>utils.randomToken\<close>, \<^verbatim>\<open>process.version\<close>, \<^verbatim>\<open>process.platform\<close>, the npm child process
  (a function of its arguments, working directory and the file system it finds, giving the
  message of the error of \<^verbatim>\<open>execFile\<close>, if any, stdout, stderr and the file system it leaves),
  \<^verbatim>\<open>httpHelpers.getUrl\<close> (whether it returns), \<^verbatim>\<open>JSON.parse\<close> on a dependency tree
  (\<open>None\<close> is a SyntaxError), \<^verbatim>\<open>JSON.stringify\<close>, \<^verbatim>\<open>colonConverter.convert\<close> and the two
  regular expressions that \<^verbatim>\<open>installNpmModules\<close> runs on npm's stderr (their captures).
\<close>

record env =
  isUrlWithSha :: "string option \<Rightarrow> bool"
  randomToken :: string
  process_version :: string
  process_platform :: string
  execNpm :: "string list \<Rightarrow> path \<Rightarrow> fsnode \<Rightarrow> (string option \<times> string \<times> string) \<times> fsnode"
  getUrl :: "string \<Rightarrow> bool"
  JSON_parse :: "string \<Rightarrow> dep_obj option"
  JSON_stringify :: "json \<Rightarrow> string"
  colonConvert :: "string \<Rightarrow> string"
  missingPattern :: "string \<Rightarrow> string option"
  badVersionPattern :: "string \<Rightarrow> (string \<times> string) option"

subsection \<open>Canonical versions\<close>

text \<open>\<^verbatim>\<open>canonicalVersion(depObj)\<close>: the \<^verbatim>\<open>from\<close> field when it is a URL with a hash, else the
  \<^verbatim>\<open>version\<close> field.\<close>

definition canonicalVersion :: "env \<Rightarrow> dep_obj \<Rightarrow> string option" where
  "canonicalVersion e depObj =
     (if isUrlWithSha e (dep_from depObj) then dep_from depObj else dep_version depObj)"

text \<open>The test \<^verbatim>\<open>/^https:\/\/registry.npmjs.org\//\<close>: the two dots of the host name are
  not escaped, so each stands for any character but a line terminator.\<close>

definition regexDot :: "char \<Rightarrow> bool" where
  "regexDot c = (c \<noteq> CHR 0x0A \<and> c \<noteq> CHR 0x0D)"

fun matchPrefix :: "char option list \<Rightarrow> string \<Rightarrow> bool" where
  "matchPrefix [] s = True"
| "matchPrefix (p # ps) [] = False"
| "matchPrefix (p # ps) (c # cs) =
     ((case p of None \<Rightarrow> regexDot c | Some x \<Rightarrow> c = x) \<and> matchPrefix ps cs)"

definition registryPattern :: "char option list" where
  "registryPattern =
     map Some ''https://registry'' @ [None] @ map Some ''npmjs'' @ [None] @ map Some ''org/''"

definition matchesRegistry :: "string \<Rightarrow> bool" where
  "matchesRegistry s = matchPrefix registryPattern s"

text \<open>The version that \<^verbatim>\<open>minimizeModule\<close> picks. \<^verbatim>\<open>module.resolved && ...\<close> is false for an
  absent field and for the empty string.\<close>

definition pickVersion ::
  "env \<Rightarrow> string option \<Rightarrow> string option \<Rightarrow> string option \<Rightarrow> string option" where
  "pickVersion e resolved frm version =
     (if (case resolved of None \<Rightarrow> False | Some r \<Rightarrow> r \<noteq> [] \<and> \<not> matchesRegistry r)
      then resolved
      else if isUrlWithSha e frm then frm
      else version)"

definition moduleVersion :: "env \<Rightarrow> dep_obj \<Rightarrow> string option" where
  "moduleVersion e m = pickVersion e (dep_resolved m) (dep_from m) (dep_version m)"

text \<open>\<^verbatim>\<open>minimizeModule\<close>: a new object with the field \<^verbatim>\<open>version\<close> and, when
  \<^verbatim>\<open>module.dependencies\<close> is truthy (any object, also an empty one), the field
  \<^verbatim>\<open>dependencies\<close> with every sub-module minimized under its name.\<close>

primrec minimizeModule :: "env \<Rightarrow> dep_obj \<Rightarrow> dep_obj" where
  "minimizeModule e (DepObj v f r other deps) =
     DepObj (pickVersion e r f v) None None []
       (map_option (map (map_prod id (minimizeModule e))) deps)"

text \<open>\<^verbatim>\<open>minimizeDependencyTree(tree)\<close>: \<^verbatim>\<open>_.each\<close> over \<^verbatim>\<open>tree.dependencies\<close> (no iteration
  when the field is absent); the result has the one field \<^verbatim>\<open>dependencies\<close>.\<close>

definition minimizeDependencyTree :: "env \<Rightarrow> dep_obj \<Rightarrow> dep_obj" where
  "minimizeDependencyTree e tree =
     DepObj None None None []
       (Some (map (map_prod id (minimizeModule e))
                  (case dep_dependencies tree of None \<Rightarrow> [] | Some ds \<Rightarrow> ds)))"

subsection \<open>Installed dependencies and the install arguments\<close>

text \<open>\<^verbatim>\<open>treeToDependencies(tree)\<close>: the pairs of name and canonical version of the top-level
  dependencies, made into an object by \<^verbatim>\<open>_.object\<close>. \<open>objGet\<close> reads a key of that object
  (a later pair wins; an absent key and an \<^verbatim>\<open>undefined\<close> value both read as \<open>None\<close>).\<close>

definition treeToDependencies :: "env \<Rightarrow> dep_obj \<Rightarrow> (string \<times> string option) list" where
  "treeToDependencies e tree =
     map (\<lambda>(name, properties). (name, canonicalVersion e properties))
         (case dep_dependencies tree of None \<Rightarrow> [] | Some ds \<Rightarrow> ds)"

definition objGet :: "(string \<times> string option) list \<Rightarrow> string \<Rightarrow> string option" where
  "objGet obj name = (case map_of (rev obj) name of None \<Rightarrow> None | Some v \<Rightarrow> v)"

text \<open>Lines 425 to 433 of \<^verbatim>\<open>installNpmModules\<close>: \<^verbatim>\<open>args\<close> starts as \<^verbatim>\<open>["install"]\<close> and
  \<^verbatim>\<open>_.each\<close> over the manifest pushes one argument for every package whose installed
  canonical version is not the manifest's version.\<close>

definition installArg :: "env \<Rightarrow> string \<Rightarrow> string \<Rightarrow> string" where
  "installArg e name version =
     (if isUrlWithSha e (Some version) then version else name @ ''@'' @ version)"

definition installArgs ::
  "env \<Rightarrow> (string \<times> string) list \<Rightarrow> (string \<times> string option) list \<Rightarrow> string list" where
  "installArgs e npmDependencies installed =
     foldl (\<lambda>args (name, version).
              if objGet installed name \<noteq> Some version
              then args @ [installArg e name version] else args)
           [''install''] npmDependencies"

section \<open>The file system\<close>

text \<open>
  The file system is a tree: a directory holds its entries by name, in the order in which
  \<^verbatim>\<open>files.readdir\<close> lists them. A path is the list of its components, \<^verbatim>\<open>files.pathJoin\<close>
  appends components, and an entry name is looked up from the left.
\<close>

fun fs_lookup :: "fsnode \<Rightarrow> path \<Rightarrow> fsnode option" where
  "fs_lookup n [] = Some n"
| "fs_lookup (File s) (c # cs) = None"
| "fs_lookup (Dir es) (c # cs) =
     (case map_of es c of None \<Rightarrow> None | Some ch \<Rightarrow> fs_lookup ch cs)"

fun fs_remove :: "path \<Rightarrow> fsnode \<Rightarrow> fsnode" where
  "fs_remove [] n = n"
| "fs_remove (c # cs) (File s) = File s"
| "fs_remove (c # cs) (Dir es) =
     (if cs = [] then Dir (filter (\<lambda>(k, v). k \<noteq> c) es)
      else Dir (map (\<lambda>(k, v). if k = c then (k, fs_remove cs v) else (k, v)) es))"

fun fs_put :: "path \<Rightarrow> fsnode \<Rightarrow> fsnode \<Rightarrow> fsnode" where
  "fs_put [] new n = new"
| "fs_put (c # cs) new (File s) = File s"
| "fs_put (c # cs) new (Dir es) =
     (if c \<in> fst ` set es
      then Dir (map (\<lambda>(k, v). if k = c then (k, fs_put cs new v) else (k, v)) es)
      else if cs = [] then Dir (es @ [(c, new)]) else Dir es)"

text \<open>What a path holds, seen from outside: nothing, a file with its contents, or a
  directory.\<close>

datatype entry = IsFile string | IsDir

definition entry_at :: "fsnode \<Rightarrow> path \<Rightarrow> entry option" where
  "entry_at fs p =
     (case fs_lookup fs p of None \<Rightarrow> None
      | Some (File s) \<Rightarrow> Some (IsFile s) | Some (Dir es) \<Rightarrow> Some IsDir)"

definition pathString :: "path \<Rightarrow> string" where
  "pathString p = concat (case p of [] \<Rightarrow> [] | c # cs \<Rightarrow> c # map (\<lambda>x. ''/'' @ x) cs)"

text \<open>\<^verbatim>\<open>packageNpmDir + s\<close>: string concatenation lengthens the last component.\<close>

definition pathAppend :: "path \<Rightarrow> string \<Rightarrow> path" where
  "pathAppend p s = (case rev p of [] \<Rightarrow> [s] | c # cs \<Rightarrow> rev cs @ [c @ s])"

section \<open>Effects: state, exceptions, collaborators\<close>

datatype exn = NpmFailure | FsError string | Error string | SyntaxError

datatype event =
    Rename path path | RmRecursive path | MkdirP path | WriteFile path string
  | CopyFile path path | RunNpm "string list" path | GetUrl string

datatype message = Text string | Result npm_result

text \<open>The state that a call can change: the file system, the messages given to
  \<^verbatim>\<open>buildmessage.error\<close>, the lines given to \<^verbatim>\<open>runLog.log\<close>, and the calls made to the
  collaborators that can change the world, in order.\<close>

record state =
  st_fs :: fsnode
  st_errors :: "message list"
  st_log :: "string list"
  st_trace :: "event list"

type_synonym 'a io = "state \<Rightarrow> (exn + 'a) \<times> state"

definition ok :: "'a \<Rightarrow> 'a io" where
  "ok x st = (Inr x, st)"

definition throw :: "exn \<Rightarrow> 'a io" where
  "throw ex st = (Inl ex, st)"

definition andThen :: "'a io \<Rightarrow> ('a \<Rightarrow> 'b io) \<Rightarrow> 'b io" where
  "andThen m f st = (case m st of (Inl ex, st') \<Rightarrow> (Inl ex, st') | (Inr x, st') \<Rightarrow> f x st')"

definition tryCatch :: "'a io \<Rightarrow> (exn \<Rightarrow> 'a io) \<Rightarrow> 'a io" where
  "tryCatch m h st = (case m st of (Inl ex, st') \<Rightarrow> h ex st' | (Inr x, st') \<Rightarrow> (Inr x, st'))"

definition ifM :: "(state \<Rightarrow> bool) \<Rightarrow> 'a io \<Rightarrow> 'a io \<Rightarrow> 'a io" where
  "ifM c a b st = (if c st then a st else b st)"

definition logEvent :: "event \<Rightarrow> state \<Rightarrow> state" where
  "logEvent ev st = st\<lparr>st_trace := st_trace st @ [ev]\<rparr>"

text \<open>The \<^verbatim>\<open>code\<close> property of a caught exception (\<^verbatim>\<open>undefined\<close> unless the file system
  raised it).\<close>

fun exn_code :: "exn \<Rightarrow> string option" where
  "exn_code (FsError c) = Some c"
| "exn_code _ = None"

subsection \<open>files.js\<close>

text \<open>
  Modelled from the spec: the functions of \<^verbatim>\<open>files.js\<close> (not under src/) that meteor-npm.js
  calls, with the meaning of the system calls they wrap. \<^verbatim>\<open>files.rename\<close> fails with
  ENOENT when the source is missing or the target has no parent directory, with EINVAL when
  the target lies inside the source, with ENOTEMPTY when the target is a directory with
  entries; \<^verbatim>\<open>files.rm_recursive\<close> deletes a path with everything below it and is silent
  when there is nothing to delete; reading a directory as a file fails with EISDIR.
\<close>

definition files_exists :: "path \<Rightarrow> state \<Rightarrow> bool" where
  "files_exists p st = (fs_lookup (st_fs st) p \<noteq> None)"

definition files_rename :: "path \<Rightarrow> path \<Rightarrow> unit io" where
  "files_rename src dst st =
     (let fs = st_fs st; st1 = logEvent (Rename src dst) st in
      case fs_lookup fs src of
        None \<Rightarrow> (Inl (FsError ''ENOENT''), st1)
      | Some n \<Rightarrow>
          if src = [] \<or> strict_prefix src dst then (Inl (FsError ''EINVAL''), st1)
          else (case fs_lookup fs (butlast dst) of
                  Some (Dir es) \<Rightarrow>
                    (case fs_lookup fs dst of
                       Some (Dir (x # xs)) \<Rightarrow> (Inl (FsError ''ENOTEMPTY''), st1)
                     | _ \<Rightarrow> (Inr (), st1\<lparr>st_fs := fs_put dst n (fs_remove src fs)\<rparr>))
                | _ \<Rightarrow> (Inl (FsError ''ENOENT''), st1)))"

definition files_rm_recursive :: "path \<Rightarrow> unit io" where
  "files_rm_recursive p st =
     (Inr (), (logEvent (RmRecursive p) st)\<lparr>st_fs := fs_remove p (st_fs st)\<rparr>)"

definition files_stat_isDirectory :: "path \<Rightarrow> bool io" where
  "files_stat_isDirectory p st =
     (case fs_lookup (st_fs st) p of
        None \<Rightarrow> (Inl (FsError ''ENOENT''), st)
      | Some (File s) \<Rightarrow> (Inr False, st)
      | Some (Dir es) \<Rightarrow> (Inr True, st))"

definition files_readFile :: "path \<Rightarrow> string io" where
  "files_readFile p st =
     (case fs_lookup (st_fs st) p of
        None \<Rightarrow> (Inl (FsError ''ENOENT''), st)
      | Some (File s) \<Rightarrow> (Inr s, st)
      | Some (Dir es) \<Rightarrow> (Inl (FsError ''EISDIR''), st))"

definition fs_write :: "path \<Rightarrow> string \<Rightarrow> fsnode \<Rightarrow> exn + fsnode" where
  "fs_write p contents fs =
     (case fs_lookup fs (butlast p) of
        Some (Dir es) \<Rightarrow>
          (case fs_lookup fs p of
             Some (Dir es') \<Rightarrow> Inl (FsError ''EISDIR'')
           | _ \<Rightarrow> Inr (fs_put p (File contents) fs))
      | _ \<Rightarrow> Inl (FsError ''ENOENT''))"

definition files_writeFile :: "path \<Rightarrow> string \<Rightarrow> unit io" where
  "files_writeFile p contents st =
     (let st1 = logEvent (WriteFile p contents) st in
      case fs_write p contents (st_fs st) of
        Inl ex \<Rightarrow> (Inl ex, st1)
      | Inr fs' \<Rightarrow> (Inr (), st1\<lparr>st_fs := fs'\<rparr>))"

definition files_copyFile :: "path \<Rightarrow> path \<Rightarrow> unit io" where
  "files_copyFile src dst st =
     (let st1 = logEvent (CopyFile src dst) st in
      case fs_lookup (st_fs st) src of
        None \<Rightarrow> (Inl (FsError ''ENOENT''), st1)
      | Some (Dir es) \<Rightarrow> (Inl (FsError ''EISDIR''), st1)
      | Some (File s) \<Rightarrow>
          (case fs_write dst s (st_fs st) of
             Inl ex \<Rightarrow> (Inl ex, st1)
           | Inr fs' \<Rightarrow> (Inr (), st1\<lparr>st_fs := fs'\<rparr>)))"

text \<open>Modelled from the spec: \<^verbatim>\<open>files.mkdir_p\<close> (files.js is not under src/) makes every
  missing directory on the way, from the root down, and fails when it meets a file.\<close>

definition fs_mkdir_p :: "path \<Rightarrow> fsnode \<Rightarrow> fsnode option" where
  "fs_mkdir_p p fs =
     foldl (\<lambda>acc q. case acc of
                       None \<Rightarrow> None
                     | Some f \<Rightarrow> (case fs_lookup f q of
                                     None \<Rightarrow> Some (fs_put q (Dir []) f)
                                   | Some (Dir es) \<Rightarrow> Some f
                                   | Some (File s) \<Rightarrow> None))
           (Some fs) (prefixes p)"

definition files_mkdir_p :: "path \<Rightarrow> unit io" where
  "files_mkdir_p p st =
     (let st1 = logEvent (MkdirP p) st in
      case fs_mkdir_p p (st_fs st) of
        None \<Rightarrow> (Inl (FsError ''EEXIST''), st1)
      | Some fs' \<Rightarrow> (Inr (), st1\<lparr>st_fs := fs'\<rparr>))"

text \<open>Modelled from the spec: \<^verbatim>\<open>files.findPathsWithRegex(".", /:/, {cwd: dir})\<close> (files.js
  is not under src/) scans all paths below \<^verbatim>\<open>dir\<close> for a colon: it gives the paths of
  everything below \<^verbatim>\<open>dir\<close>, relative to it, every entry before what it holds, that contain
  one, and fails when \<^verbatim>\<open>dir\<close> is missing.\<close>

fun relPaths :: "(string \<times> fsnode) list \<Rightarrow> path list" where
  "relPaths [] = []"
| "relPaths ((k, File s) # es) = [k] # relPaths es"
| "relPaths ((k, Dir sub) # es) = [k] # map ((#) k) (relPaths sub) @ relPaths es"

definition hasColon :: "string \<Rightarrow> bool" where
  "hasColon s = (CHR '':'' \<in> set s)"

definition files_findPathsWithColon :: "path \<Rightarrow> string list io" where
  "files_findPathsWithColon cwd st =
     (case fs_lookup (st_fs st) cwd of
        Some (Dir es) \<Rightarrow> (Inr (filter hasColon (map pathString (relPaths es))), st)
      | Some (File s) \<Rightarrow> (Inl (FsError ''ENOTDIR''), st)
      | None \<Rightarrow>
          (Inl (Error (''Specified current working directory does not exist: '' @
                       pathString cwd)), st))"

section \<open>meteor-npm.js\<close>

definition buildmessage_error :: "message \<Rightarrow> unit io" where
  "buildmessage_error msg st = (Inr (), st\<lparr>st_errors := st_errors st @ [msg]\<rparr>)"

definition runLog_log :: "string \<Rightarrow> unit io" where
  "runLog_log line st = (Inr (), st\<lparr>st_log := st_log st @ [line]\<rparr>)"

fun joinWith :: "string \<Rightarrow> string list \<Rightarrow> string" where
  "joinWith sep [] = []"
| "joinWith sep [x] = x"
| "joinWith sep (x # y # ys) = x @ sep @ joinWith sep (y # ys)"

definition digitChar :: "nat \<Rightarrow> char" where
  "digitChar n = ''0123456789'' ! (n mod 10)"

fun decimal :: "nat \<Rightarrow> string" where
  "decimal n = (if n < 10 then [digitChar n] else decimal (n div 10) @ [digitChar n])"

declare decimal.simps [simp del]

definition newline :: string where
  "newline = [CHR 0x0A]"

definition quote :: string where
  "quote = [CHR 0x27]"

subsection \<open>The node compatibility version\<close>

text \<open>\<^verbatim>\<open>version.replace(/\.(\d+)$/, '.*')\<close>: when the string ends in a dot and one or more
  digits, they become \<^verbatim>\<open>.*\<close>; \<^verbatim>\<open>currentNodeCompatibilityVersion\<close> then appends a newline.\<close>

definition isDigit :: "char \<Rightarrow> bool" where
  "isDigit c = (c \<in> set ''0123456789'')"

definition replacePatch :: "string \<Rightarrow> string" where
  "replacePatch v =
     (let digits = takeWhile isDigit (rev v); rest = dropWhile isDigit (rev v) in
      if digits \<noteq> [] \<and> rest \<noteq> [] \<and> hd rest = CHR ''.''
      then rev (tl rest) @ ''.*'' else v)"

definition currentNodeCompatibilityVersion :: "env \<Rightarrow> string" where
  "currentNodeCompatibilityVersion e = replacePatch (process_version e) @ newline"

subsection \<open>Running npm\<close>

definition runNpmCommand :: "env \<Rightarrow> string list \<Rightarrow> path \<Rightarrow> npm_result io" where
  "runNpmCommand e args cwd st =
     (case execNpm e args cwd (st_fs st) of
        ((err, out, errout), fs') \<Rightarrow>
          (Inr \<lparr>success = (err = None),
                error = (case err of Some m \<Rightarrow> m @ errout | None \<Rightarrow> errout),
                stdout = out, stderr = errout\<rparr>,
           (logEvent (RunNpm args cwd) st)\<lparr>st_fs := fs'\<rparr>))"

definition constructPackageJson :: "env \<Rightarrow> string \<Rightarrow> path \<Rightarrow> (string \<times> string) list \<Rightarrow> unit io" where
  "constructPackageJson e packageName packageNpmDir npmDependencies =
     files_writeFile (packageNpmDir @ [''package.json''])
       (JSON_stringify e
          (JObject [(''name'', JString (''packages-for-meteor-'' @ colonConvert e packageName)),
                    (''version'', JString ''0.0.0''),
                    (''dependencies'', JObject (map (map_prod id JString) npmDependencies))])
        @ newline)"

definition getInstalledDependenciesTree :: "env \<Rightarrow> path \<Rightarrow> dep_obj io" where
  "getInstalledDependenciesTree e dir =
     andThen (runNpmCommand e [''ls'', ''--json''] dir) (\<lambda>result.
       case JSON_parse e (stdout result) of
         Some tree \<Rightarrow> ok tree
       | None \<Rightarrow>
           if \<not> success result
           then andThen (buildmessage_error
                           (Text (''couldn't read npm version lock information: '' @
                                  error result)))
                  (\<lambda>_. throw NpmFailure)
           else throw SyntaxError)"

definition getShrinkwrappedDependenciesTree :: "env \<Rightarrow> path \<Rightarrow> dep_obj io" where
  "getShrinkwrappedDependenciesTree e dir =
     andThen (files_readFile (dir @ [''npm-shrinkwrap.json''])) (\<lambda>shrinkwrapFile.
       case JSON_parse e shrinkwrapFile of
         Some tree \<Rightarrow> ok tree
       | None \<Rightarrow> throw SyntaxError)"

definition getInstalledDependencies :: "env \<Rightarrow> path \<Rightarrow> (string \<times> string option) list io" where
  "getInstalledDependencies e dir =
     andThen (getInstalledDependenciesTree e dir) (\<lambda>tree. ok (treeToDependencies e tree))"

definition ensureConnected :: "env \<Rightarrow> unit io" where
  "ensureConnected e st =
     (let st1 = logEvent (GetUrl ''http://registry.npmjs.org'') st in
      if getUrl e ''http://registry.npmjs.org'' then ok () st1
      else andThen (buildmessage_error
                      (Text (''Can't install npm dependencies. '' @
                             ''Are you connected to the internet?'')))
             (\<lambda>_. throw NpmFailure) st1)"

subsection \<open>Installing\<close>

text \<open>The report on paths with colons (lines 463 to 473): the first ten, and a line with
  the number of the others when there are more.\<close>

definition firstTen :: "string list \<Rightarrow> string list" where
  "firstTen pathsWithColons =
     take 10 pathsWithColons @
     (if length pathsWithColons > 10
      then [''... '' @ decimal (length pathsWithColons - 10) @ '' paths omitted.'']
      else [])"

definition colonMessage :: "string list \<Rightarrow> string" where
  "colonMessage pathsWithColons =
     ''Some filenames in your package have invalid characters.'' @ newline @
     ''The following file paths have colons, ':', which won't work on Windows:'' @ newline @
     joinWith newline (firstTen pathsWithColons)"

definition installFailureMessage :: "env \<Rightarrow> npm_result \<Rightarrow> string" where
  "installFailureMessage e result =
     (case missingPattern e (stderr result) of
        Some name \<Rightarrow> ''there is no npm package named '' @ quote @ name @ quote
      | None \<Rightarrow>
          (case badVersionPattern e (stderr result) of
             Some (name, version) \<Rightarrow>
               name @ '' version '' @ version @ '' is not available in the npm registry''
           | None \<Rightarrow> error result))"

text \<open>\<^verbatim>\<open>installNpmModules\<close> in three parts: lines 419 to 435, which end with the result of
  \<^verbatim>\<open>npm install\<close>; lines 455 to 477, the search for paths with colons; and the function
  itself, which reports a failed install between the two.\<close>

definition runInstall :: "env \<Rightarrow> (string \<times> string) list \<Rightarrow> string \<Rightarrow> path \<Rightarrow> npm_result io" where
  "runInstall e npmDependencies packageName packageNpmDir =
     andThen (files_mkdir_p (packageNpmDir @ [''node_modules''])) (\<lambda>_.
     andThen (constructPackageJson e packageName packageNpmDir npmDependencies) (\<lambda>_.
     andThen (ensureConnected e) (\<lambda>_.
     andThen (getInstalledDependencies e packageNpmDir) (\<lambda>installed.
     runNpmCommand e (installArgs e npmDependencies installed) packageNpmDir))))"

definition checkColons :: "env \<Rightarrow> path \<Rightarrow> unit io" where
  "checkColons e packageNpmDir =
     (if process_platform e \<noteq> ''win32''
      then andThen (files_findPathsWithColon (packageNpmDir @ [''node_modules'']))
             (\<lambda>pathsWithColons.
                if length pathsWithColons \<noteq> 0
                then andThen (buildmessage_error (Text (colonMessage pathsWithColons)))
                       (\<lambda>_. throw NpmFailure)
                else ok ())
      else ok ())"

definition installNpmModules :: "env \<Rightarrow> (string \<times> string) list \<Rightarrow> string \<Rightarrow> path \<Rightarrow> unit io" where
  "installNpmModules e npmDependencies packageName packageNpmDir =
     andThen (runInstall e npmDependencies packageName packageNpmDir) (\<lambda>result.
       if \<not> success result
       then andThen (buildmessage_error (Text (installFailureMessage e result)))
              (\<lambda>_. throw NpmFailure)
       else checkColons e packageNpmDir)"

subsection \<open>Shrinkwrap\<close>

text \<open>What \<^verbatim>\<open>JSON.stringify\<close> sees of a dependency object: the fields that are not
  \<^verbatim>\<open>undefined\<close>; in a minimized object, \<^verbatim>\<open>version\<close> before \<^verbatim>\<open>dependencies\<close>.\<close>

primrec json_of :: "dep_obj \<Rightarrow> json" where
  "json_of (DepObj v f r other deps) =
     JObject ((case v of None \<Rightarrow> [] | Some s \<Rightarrow> [(''version'', JString s)]) @
              (case f of None \<Rightarrow> [] | Some s \<Rightarrow> [(''from'', JString s)]) @
              (case r of None \<Rightarrow> [] | Some s \<Rightarrow> [(''resolved'', JString s)]) @
              map (map_prod id JString) other @
              (case map_option (map (map_prod id json_of)) deps of
                 None \<Rightarrow> [] | Some js \<Rightarrow> [(''dependencies'', JObject js)]))"

definition minimizeShrinkwrap :: "env \<Rightarrow> path \<Rightarrow> unit io" where
  "minimizeShrinkwrap e dir =
     andThen (getShrinkwrappedDependenciesTree e dir) (\<lambda>topLevel.
       files_writeFile (dir @ [''npm-shrinkwrap.json''])
         (JSON_stringify e (json_of (minimizeDependencyTree e topLevel)) @ newline))"

definition shrinkwrap :: "env \<Rightarrow> path \<Rightarrow> unit io" where
  "shrinkwrap e dir =
     andThen (runNpmCommand e [''shrinkwrap''] dir) (\<lambda>result.
       if \<not> success result
       then andThen (buildmessage_error
                       (Text (''couldn't run `npm shrinkwrap`: '' @ error result)))
              (\<lambda>_. throw NpmFailure)
       else minimizeShrinkwrap e dir)"

subsection \<open>Completing the directory\<close>

definition readmeText :: string where
  "readmeText =
     ''This directory and the files immediately inside it are automatically generated'' @ newline @
     ''when you change this package's NPM dependencies. Commit the files in this'' @ newline @
     ''directory (npm-shrinkwrap.json, .gitignore, and this README) to source control'' @ newline @
     ''so that others run the same versions of sub-dependencies.'' @ newline @
     newline @
     ''You should NOT check in the node_modules directory that Meteor automatically'' @ newline @
     ''creates; if you are using git, the .gitignore file tells git to ignore it.'' @ newline"

definition createReadme :: "path \<Rightarrow> unit io" where
  "createReadme packageNpmDir = files_writeFile (packageNpmDir @ [''README'']) readmeText"

definition createNodeVersion :: "env \<Rightarrow> path \<Rightarrow> unit io" where
  "createNodeVersion e packageNpmDir =
     files_writeFile (packageNpmDir @ [''node_modules'', ''.node_version''])
       (currentNodeCompatibilityVersion e)"

definition createGitIgnore :: "path \<Rightarrow> unit io" where
  "createGitIgnore packageNpmDir =
     files_writeFile (packageNpmDir @ [''.gitignore''])
       (joinWith newline [''node_modules'', []])"

definition completeNpmDirectory :: "env \<Rightarrow> string \<Rightarrow> path \<Rightarrow> (string \<times> string) list \<Rightarrow> unit io" where
  "completeNpmDirectory e packageName packageNpmDir npmDependencies =
     andThen (shrinkwrap e packageNpmDir) (\<lambda>_.
     andThen (files_rename (packageNpmDir @ [''package.json''])
                           (packageNpmDir @ [''node_modules'', ''.package.json''])) (\<lambda>_.
     andThen (files_copyFile (packageNpmDir @ [''npm-shrinkwrap.json''])
                             (packageNpmDir @ [''node_modules'', ''.npm-shrinkwrap.json''])) (\<lambda>_.
     andThen (createReadme packageNpmDir) (\<lambda>_.
     andThen (createNodeVersion e packageNpmDir) (\<lambda>_.
     createGitIgnore packageNpmDir)))))"

definition logUpdateDependencies :: "string \<Rightarrow> (string \<times> string) list \<Rightarrow> unit io" where
  "logUpdateDependencies packageName npmDependencies =
     runLog_log (packageName @ '': updating npm dependencies -- '' @
                 joinWith '', '' (map fst npmDependencies) @ ''...'')"

definition createFreshNpmDirectory ::
  "env \<Rightarrow> string \<Rightarrow> path \<Rightarrow> (string \<times> string) list \<Rightarrow> bool \<Rightarrow> unit io" where
  "createFreshNpmDirectory e packageName packageNpmDir npmDependencies quiet =
     andThen (if \<not> quiet then logUpdateDependencies packageName npmDependencies else ok ()) (\<lambda>_.
     andThen (installNpmModules e npmDependencies packageName packageNpmDir) (\<lambda>_.
     completeNpmDirectory e packageName packageNpmDir npmDependencies))"

subsection \<open>Updating an existing directory\<close>

text \<open>Lines 149 to 165 of \<^verbatim>\<open>updateExistingNpmDirectory\<close>: when \<^verbatim>\<open>node_modules\<close> exists, read
  the stamp \<^verbatim>\<open>node_modules/.node_version\<close> (\<^verbatim>\<open>v0.8.24\<close> when the read fails with ENOENT, any
  other exception is thrown again) and delete \<^verbatim>\<open>node_modules\<close> when the stamp is not the
  current compatibility version.\<close>

definition rebuildOnNodeChange :: "env \<Rightarrow> path \<Rightarrow> unit io" where
  "rebuildOnNodeChange e packageNpmDir =
     (let nodeModulesDir = packageNpmDir @ [''node_modules''] in
      ifM (files_exists nodeModulesDir)
        (andThen (tryCatch (files_readFile (packageNpmDir @ [''node_modules'', ''.node_version'']))
                    (\<lambda>ex. if exn_code ex \<noteq> Some ''ENOENT'' then throw ex else ok ''v0.8.24''))
           (\<lambda>oldNodeVersion.
              if oldNodeVersion \<noteq> currentNodeCompatibilityVersion e
              then files_rm_recursive nodeModulesDir else ok ()))
        (ok ()))"

text \<open>Lines 170 to 174: delete \<^verbatim>\<open>node_modules\<close> when it lacks \<^verbatim>\<open>.package.json\<close> or
  \<^verbatim>\<open>.npm-shrinkwrap.json\<close>.\<close>

definition recreateWithoutCopies :: "path \<Rightarrow> unit io" where
  "recreateWithoutCopies packageNpmDir =
     (let nodeModulesDir = packageNpmDir @ [''node_modules''] in
      ifM (\<lambda>st. files_exists nodeModulesDir st \<and>
                 (\<not> files_exists (nodeModulesDir @ [''.package.json'']) st \<or>
                  \<not> files_exists (nodeModulesDir @ [''.npm-shrinkwrap.json'']) st))
        (files_rm_recursive nodeModulesDir)
        (ok ()))"

text \<open>Lines 180 to 199: \<^verbatim>\<open>npm prune\<close> and \<^verbatim>\<open>npm dedupe\<close>, whose failures are reported and
  nothing more.\<close>

definition pruneAndDedupe :: "env \<Rightarrow> path \<Rightarrow> unit io" where
  "pruneAndDedupe e packageNpmDir =
     andThen (runNpmCommand e [''prune''] packageNpmDir) (\<lambda>pruneResult.
     andThen (if \<not> success pruneResult then buildmessage_error (Result pruneResult) else ok ()) (\<lambda>_.
     andThen (runNpmCommand e [''dedupe''] packageNpmDir) (\<lambda>dedupeResult.
       if \<not> success dedupeResult then buildmessage_error (Result dedupeResult) else ok ())))"

definition updateExistingNpmDirectory ::
  "env \<Rightarrow> string \<Rightarrow> path \<Rightarrow> (string \<times> string) list \<Rightarrow> bool \<Rightarrow> unit io" where
  "updateExistingNpmDirectory e packageName packageNpmDir npmDependencies quiet =
     andThen (files_stat_isDirectory packageNpmDir) (\<lambda>isDirectory.
       if \<not> isDirectory
       then throw (Error (''Corrupted .npm directory -- should be a directory: '' @
                          pathString packageNpmDir))
       else
         ifM (\<lambda>st. \<not> files_exists (packageNpmDir @ [''npm-shrinkwrap.json'']) st)
           (throw (Error (''Corrupted .npm directory -- can't find npm-shrinkwrap.json in '' @
                          pathString packageNpmDir)))
           (andThen (rebuildOnNodeChange e packageNpmDir) (\<lambda>_.
            andThen (recreateWithoutCopies packageNpmDir) (\<lambda>_.
            andThen (\<lambda>st. ok (files_exists (packageNpmDir @ [''node_modules'']) st) st)
              (\<lambda>nodeModulesDirExisted.
            andThen (installNpmModules e npmDependencies packageName packageNpmDir) (\<lambda>_.
            andThen (if nodeModulesDirExisted then pruneAndDedupe e packageNpmDir else ok ()) (\<lambda>_.
            completeNpmDirectory e packageName packageNpmDir npmDependencies)))))))"

subsection \<open>updateDependencies\<close>

text \<open>The body of the \<^verbatim>\<open>try\<close> block of \<^verbatim>\<open>updateDependencies\<close> (lines 64 to 89).\<close>

definition reconcile ::
  "env \<Rightarrow> string \<Rightarrow> path \<Rightarrow> (string \<times> string) list \<Rightarrow> bool \<Rightarrow> unit io" where
  "reconcile e packageName packageNpmDir npmDependencies quiet =
     andThen (ifM (\<lambda>st. files_exists packageNpmDir st \<and>
                         \<not> files_exists (packageNpmDir @ [''npm-shrinkwrap.json'']) st)
                (files_rm_recursive packageNpmDir)
                (ok ())) (\<lambda>_.
       ifM (files_exists packageNpmDir)
         (updateExistingNpmDirectory e packageName packageNpmDir npmDependencies quiet)
         (createFreshNpmDirectory e packageName packageNpmDir npmDependencies quiet))"

text \<open>\<^verbatim>\<open>npmDependencies\<close> is \<open>None\<close> when the caller passes a falsey value, and \<^verbatim>\<open>_.isEmpty\<close>
  holds of the object without keys. \<^verbatim>\<open>tempPackageNpmDir\<close> is the value of the variable of
  that name (line 51).\<close>

definition tempPackageNpmDir :: "env \<Rightarrow> path \<Rightarrow> path" where
  "tempPackageNpmDir e packageNpmDir = pathAppend packageNpmDir (''-temp-'' @ randomToken e)"

definition updateDependencies ::
  "env \<Rightarrow> string \<Rightarrow> path \<Rightarrow> (string \<times> string) list option \<Rightarrow> bool \<Rightarrow> bool io" where
  "updateDependencies e packageName packageNpmDir npmDependencies quiet =
     (if (case npmDependencies of None \<Rightarrow> True | Some deps \<Rightarrow> deps = [])
      then
        andThen (tryCatch
                   (andThen (files_rename packageNpmDir (tempPackageNpmDir e packageNpmDir))
                      (\<lambda>_. ok True))
                   (\<lambda>ex. if exn_code ex \<noteq> Some ''ENOENT'' then throw ex else ok False))
          (\<lambda>renamed.
             if renamed
             then andThen (files_rm_recursive (tempPackageNpmDir e packageNpmDir)) (\<lambda>_. ok False)
             else ok False)
      else
        tryCatch
          (andThen (reconcile e packageName packageNpmDir (the npmDependencies) quiet)
             (\<lambda>_. ok True))
          (\<lambda>ex. if ex = NpmFailure then ok False else throw ex))"

subsection \<open>dependenciesArePortable\<close>

text \<open>\<^verbatim>\<open>search(dir)\<close> for a directory with the entries \<open>es\<close>: \<^verbatim>\<open>_.find\<close> takes the items in
  order and stops at the first for which the callback is truthy; the callback answers
  \<^verbatim>\<open>true\<close> for a name that ends in \<^verbatim>\<open>.node\<close>, the result of the search below for another
  directory and \<^verbatim>\<open>undefined\<close> for anything else; \<^verbatim>\<open>|| false\<close> turns a result that is not
  truthy (nothing found, or the empty name) into \<^verbatim>\<open>false\<close>, here \<open>None\<close>. The first
  component of the result lists the item names given to the callback, in order.\<close>

definition truthy :: "string option \<Rightarrow> bool" where
  "truthy r = (case r of None \<Rightarrow> False | Some n \<Rightarrow> n \<noteq> [])"

fun find_item :: "(string \<times> fsnode) list \<Rightarrow> string list \<times> string option" where
  "find_item [] = ([], None)"
| "find_item ((itemName, File s) # rest) =
     (if suffix ''.node'' itemName then ([itemName], Some itemName)
      else (case find_item rest of (seen, r) \<Rightarrow> (itemName # seen, r)))"
| "find_item ((itemName, Dir sub) # rest) =
     (if suffix ''.node'' itemName then ([itemName], Some itemName)
      else (case find_item sub of
              (below, found) \<Rightarrow>
                if truthy found then (itemName # below, Some itemName)
                else (case find_item rest of (seen, r) \<Rightarrow> (itemName # below @ seen, r))))"

definition search :: "(string \<times> fsnode) list \<Rightarrow> string list \<times> string option" where
  "search es = (case find_item es of (seen, found) \<Rightarrow> (seen, if truthy found then found else None))"

definition dependenciesArePortable :: "path \<Rightarrow> bool io" where
  "dependenciesArePortable packageNpmDir st =
     (case fs_lookup (st_fs st) (packageNpmDir @ [''node_modules'']) of
        None \<Rightarrow> (Inl (FsError ''ENOENT''), st)
      | Some (File s) \<Rightarrow> (Inl (FsError ''ENOTDIR''), st)
      | Some (Dir es) \<Rightarrow> (Inr (\<not> truthy (snd (search es))), st))"

section \<open>Notions used to state the properties\<close>

text \<open>All the objects of a dependency tree: the object itself, then the objects below
  each of its sub-dependencies, in order.\<close>

primrec nodes :: "dep_obj \<Rightarrow> dep_obj list" where
  "nodes (DepObj v f r other deps) =
     DepObj v f r other deps #
     (case map_option (map (map_prod id nodes)) deps of
        None \<Rightarrow> [] | Some below \<Rightarrow> concat (map snd below))"

text \<open>The names of the items below a directory with the entries \<open>es\<close>, every item before
  what it holds.\<close>

definition itemNames :: "(string \<times> fsnode) list \<Rightarrow> string list" where
  "itemNames es = map last (relPaths es)"

definition isNative :: "string \<Rightarrow> bool" where
  "isNative n = suffix ''.node'' n"

text \<open>The number that a string of decimal digits denotes.\<close>

definition decimalValue :: "string \<Rightarrow> nat" where
  "decimalValue s = foldl (\<lambda>acc c. 10 * acc + (of_char c - 48)) 0 s"

text \<open>The elements of a list up to the first that satisfies \<open>P\<close>, that one included.\<close>

definition upToFirst :: "('a \<Rightarrow> bool) \<Rightarrow> 'a list \<Rightarrow> 'a list" where
  "upToFirst P xs = takeWhile (\<lambda>x. \<not> P x) xs @ take 1 (dropWhile (\<lambda>x. \<not> P x) xs)"

subsection \<open>Sample collaborators\<close>

text \<open>
  Modelled from the spec: \<^verbatim>\<open>utils.isUrlWithSha\<close> (utils.js is not under src/), the test for
  "a content-addressed remote-archive URL with embedded integrity hash", taken as an http or
  https URL that holds forty hexadecimal digits in a row; \<^verbatim>\<open>undefined\<close> is not one. The
  theorems below hold for every such test; this one serves in the examples.
\<close>

definition isHexDigit :: "char \<Rightarrow> bool" where
  "isHexDigit c = (c \<in> set ''0123456789abcdef'')"

fun startsWithHex :: "nat \<Rightarrow> string \<Rightarrow> bool" where
  "startsWithHex 0 s = True"
| "startsWithHex (Suc n) [] = False"
| "startsWithHex (Suc n) (c # cs) = (isHexDigit c \<and> startsWithHex n cs)"

fun containsHexRun :: "nat \<Rightarrow> string \<Rightarrow> bool" where
  "containsHexRun n [] = (n = 0)"
| "containsHexRun n (c # cs) = (startsWithHex n (c # cs) \<or> containsHexRun n cs)"

definition urlWithSha :: "string option \<Rightarrow> bool" where
  "urlWithSha x =
     (case x of None \<Rightarrow> False
      | Some s \<Rightarrow> (prefix ''http://'' s \<or> prefix ''https://'' s) \<and> containsHexRun 40 s)"

text \<open>A machine without network on which every npm command fails and leaves the file
  system as it is.\<close>

definition offlineEnv :: env where
  "offlineEnv =
     \<lparr>isUrlWithSha = urlWithSha, randomToken = ''k3x9'', process_version = ''v4.4.7'',
      process_platform = ''linux'',
      execNpm = (\<lambda>args cwd fs. ((Some ''Command failed'', [], ''npm ERR!''), fs)),
      getUrl = (\<lambda>url. False), JSON_parse = (\<lambda>s. None), JSON_stringify = (\<lambda>j. ''{}''),
      colonConvert = id, missingPattern = (\<lambda>s. None), badVersionPattern = (\<lambda>s. None)\<rparr>"

text \<open>A machine with network on which every npm command succeeds and prints an empty
  tree, and \<^verbatim>\<open>npm install\<close> leaves in \<^verbatim>\<open>node_modules\<close> eleven files with a colon in
  their names and a directory \<^verbatim>\<open>lib\<close> with one more and a file without; the platform and
  the version of node are given.\<close>

definition colonFiles :: "(string \<times> fsnode) list" where
  "colonFiles =
     map (\<lambda>c. ([c] @ '':x'', File [])) ''abcdefghijk'' @
     [(''lib'', Dir [(''l:x'', File []), (''ok.js'', File [])])]"

definition colonEnv :: "string \<Rightarrow> string \<Rightarrow> env" where
  "colonEnv platform version =
     \<lparr>isUrlWithSha = urlWithSha, randomToken = ''k3x9'', process_version = version,
      process_platform = platform,
      execNpm = (\<lambda>args cwd fs.
         ((None, ''{}'', []),
          if take 1 args = [''install'']
          then fs_put (cwd @ [''node_modules'']) (Dir colonFiles) fs else fs)),
      getUrl = (\<lambda>url. True), JSON_parse = (\<lambda>s. Some (DepObj None None None [] None)),
      JSON_stringify = (\<lambda>j. ''{}''),
      colonConvert = id, missingPattern = (\<lambda>s. None), badVersionPattern = (\<lambda>s. None)\<rparr>"

subsection \<open>Sample states\<close>

definition freshState :: "fsnode \<Rightarrow> state" where
  "freshState fs = \<lparr>st_fs = fs, st_errors = [], st_log = [], st_trace = []\<rparr>"

text \<open>A package directory \<^verbatim>\<open>pkg/.npm\<close> as \<^verbatim>\<open>completeNpmDirectory\<close> leaves it, made under
  node 0.10, with one dependency that holds a native module.\<close>

definition installedFs :: fsnode where
  "installedFs =
     Dir [(''pkg'',
           Dir [(''package.js'', File ''Npm.depends''),
                (''.npm'',
                 Dir [(''npm-shrinkwrap.json'', File ''{}''),
                      (''README'', File ''generated''),
                      (''.gitignore'', File ''node_modules''),
                      (''node_modules'',
                       Dir [(''.package.json'', File ''{}''),
                            (''.npm-shrinkwrap.json'', File ''{}''),
                            (''.node_version'', File (''v0.10.*'' @ newline)),
                            (''gcd'',
                             Dir [(''package.json'', File ''{}''),
                                  (''build'', Dir [(''gcd.node'', File ''ELF'')]),
                                  (''index.js'', File ''exports'')])])])])]"

text \<open>The same place after the bug of release 0.6.0: a directory without
  \<^verbatim>\<open>npm-shrinkwrap.json\<close>.\<close>

definition corruptedFs :: fsnode where
  "corruptedFs =
     Dir [(''pkg'',
           Dir [(''package.js'', File ''Npm.depends''),
                (''.npm'', Dir [(''node_modules'', Dir [(''gcd'', Dir [])])])])]"

text \<open>A directory whose \<^verbatim>\<open>node_modules\<close> has no stamp, and one whose stamp is a directory.\<close>

definition unstampedFs :: fsnode where
  "unstampedFs =
     Dir [(''pkg'',
           Dir [(''.npm'',
                 Dir [(''npm-shrinkwrap.json'', File ''{}''),
                      (''node_modules'',
                       Dir [(''.package.json'', File ''{}''),
                            (''.npm-shrinkwrap.json'', File ''{}''),
                            (''gcd'', Dir [(''index.js'', File ''exports'')])])])])]"

definition stampDirFs :: fsnode where
  "stampDirFs =
     Dir [(''pkg'',
           Dir [(''.npm'',
                 Dir [(''npm-shrinkwrap.json'', File ''{}''),
                      (''node_modules'',
                       Dir [(''.package.json'', File ''{}''),
                            (''.npm-shrinkwrap.json'', File ''{}''),
                            (''.node_version'', Dir [])])])])]"

text \<open>A directory in which \<^verbatim>\<open>npm install\<close> has left those files.\<close>

definition colonFs :: fsnode where
  "colonFs = Dir [(''pkg'', Dir [(''.npm'', Dir [(''node_modules'', Dir colonFiles)])])]"

section \<open>The lock tree and the install arguments\<close>

lemma minimizeModule_eq:
  "minimizeModule e m =
     DepObj (moduleVersion e m) None None []
       (map_option (map (map_prod id (minimizeModule e))) (dep_dependencies m))"
  by (cases m) (simp add: moduleVersion_def)

lemma nodes_minimizeModule: "nodes (minimizeModule e m) = map (minimizeModule e) (nodes m)"
proof (induction m)
  case (DepObj v f r other deps)
  show ?case
  proof (cases deps)
    case None
    then show ?thesis by simp
  next
    case (Some ds)
    have ih: "nodes (minimizeModule e s) = map (minimizeModule e) (nodes s)"
      if "(n, s) \<in> set ds" for n s
      using DepObj Some that by fastforce
    have "map (\<lambda>p. nodes (minimizeModule e (snd p))) ds =
          map (\<lambda>p. map (minimizeModule e) (nodes (snd p))) ds"
      by (rule map_cong) (auto simp: ih)
    then have "concat (map (\<lambda>p. nodes (minimizeModule e (snd p))) ds) =
          concat (map (\<lambda>p. map (minimizeModule e) (nodes (snd p))) ds)"
      by (rule arg_cong)
    then show ?thesis using Some by (simp add: map_concat comp_def)
  qed
qed


text \<open>
  C1 (as amended). The version that the lock tree records for a node follows the three-step
  precedence: the resolved location when it is present, not empty and not on the default
  registry, else the \<^verbatim>\<open>from\<close> specifier when it is a URL with a hash, else the plain
  version. \<^verbatim>\<open>canonicalVersion\<close>, which is used to compare with the manifest, has the last
  two steps only; the two agree on every node whose resolved location is absent, empty or
  on the default registry. For a node with a resolved location off the default registry
  the lock tree records that location.
\<close>

theorem canonical_version_precedence:
  "dep_version (minimizeModule e m) =
     (if (\<exists>r. dep_resolved m = Some r \<and> r \<noteq> [] \<and> \<not> matchesRegistry r) then dep_resolved m
      else if isUrlWithSha e (dep_from m) then dep_from m
      else dep_version m)
   \<and> canonicalVersion e m = (if isUrlWithSha e (dep_from m) then dep_from m else dep_version m)
   \<and> ((dep_resolved m = None \<or> dep_resolved m = Some [] \<or>
        (\<exists>r. dep_resolved m = Some r \<and> matchesRegistry r)) \<longrightarrow>
       canonicalVersion e m = dep_version (minimizeModule e m))
   \<and> (\<forall>r. dep_resolved m = Some r \<and> r \<noteq> [] \<and> \<not> matchesRegistry r \<longrightarrow>
          dep_version (minimizeModule e m) = Some r)"
  by (cases m) (auto simp: pickVersion_def canonicalVersion_def split: option.splits)

theorem canonical_version_precedence_witness:
  "dep_version (minimizeModule offlineEnv
      (DepObj (Some ''1.0.0'') (Some ''foo@1.0.0'')
         (Some ''https://npm.example.com/foo/-/foo-1.0.0.tgz'') [] None)) =
     Some ''https://npm.example.com/foo/-/foo-1.0.0.tgz''
   \<and> canonicalVersion offlineEnv
      (DepObj (Some ''1.0.0'') (Some ''foo@1.0.0'')
         (Some ''https://registry.npmjs.org/foo/-/foo-1.0.0.tgz'') [] None) =
     dep_version (minimizeModule offlineEnv
      (DepObj (Some ''1.0.0'') (Some ''foo@1.0.0'')
         (Some ''https://registry.npmjs.org/foo/-/foo-1.0.0.tgz'') [] None))"
  using canonical_version_precedence[of offlineEnv
      "DepObj (Some ''1.0.0'') (Some ''foo@1.0.0'')
         (Some ''https://npm.example.com/foo/-/foo-1.0.0.tgz'') [] None"]
    canonical_version_precedence[of offlineEnv
      "DepObj (Some ''1.0.0'') (Some ''foo@1.0.0'')
         (Some ''https://registry.npmjs.org/foo/-/foo-1.0.0.tgz'') [] None"]
  by (simp add: matchesRegistry_def registryPattern_def regexDot_def)

text \<open>
  C1 as stated fails: for a node with the plain version 1.0.0 and a resolved location on
  another registry, \<^verbatim>\<open>canonicalVersion\<close> is the plain version, not the resolved location
  that the lock tree records.
\<close>

theorem canonical_version_counterexample:
  "canonicalVersion offlineEnv
      (DepObj (Some ''1.0.0'') (Some ''foo@1.0.0'')
         (Some ''https://npm.example.com/foo/-/foo-1.0.0.tgz'') [] None) = Some ''1.0.0''
   \<and> canonicalVersion offlineEnv
      (DepObj (Some ''1.0.0'') (Some ''foo@1.0.0'')
         (Some ''https://npm.example.com/foo/-/foo-1.0.0.tgz'') [] None) \<noteq>
     dep_resolved
      (DepObj (Some ''1.0.0'') (Some ''foo@1.0.0'')
         (Some ''https://npm.example.com/foo/-/foo-1.0.0.tgz'') [] None)
   \<and> \<not> matchesRegistry ''https://npm.example.com/foo/-/foo-1.0.0.tgz''
   \<and> dep_version (minimizeModule offlineEnv
      (DepObj (Some ''1.0.0'') (Some ''foo@1.0.0'')
         (Some ''https://npm.example.com/foo/-/foo-1.0.0.tgz'') [] None)) =
     Some ''https://npm.example.com/foo/-/foo-1.0.0.tgz''"
  by (simp add: canonicalVersion_def pickVersion_def offlineEnv_def urlWithSha_def
      matchesRegistry_def registryPattern_def regexDot_def)

text \<open>
  C2 (as amended). \<^verbatim>\<open>minimizeDependencyTree\<close> is a total function of the tree. Its result
  has the one field \<^verbatim>\<open>dependencies\<close>, with every top-level dependency minimized under its
  name. Every object of a minimized module is the minimized form of the object at the same
  place of the input: its \<^verbatim>\<open>version\<close> is the version picked for that object, it has no
  \<^verbatim>\<open>from\<close>, no \<^verbatim>\<open>resolved\<close> and no other field, and it has a \<^verbatim>\<open>dependencies\<close> field exactly
  when the input object has one, an empty one included, with the same names in the same
  order.
\<close>

theorem minimize_tree_shape:
  "dep_version (minimizeDependencyTree e tree) = None
   \<and> dep_from (minimizeDependencyTree e tree) = None
   \<and> dep_resolved (minimizeDependencyTree e tree) = None
   \<and> dep_other (minimizeDependencyTree e tree) = []
   \<and> dep_dependencies (minimizeDependencyTree e tree) =
       Some (map (\<lambda>(name, module). (name, minimizeModule e module))
               (case dep_dependencies tree of None \<Rightarrow> [] | Some ds \<Rightarrow> ds))
   \<and> nodes (minimizeModule e m) = map (minimizeModule e) (nodes m)
   \<and> (\<forall>n \<in> set (nodes (minimizeModule e m)).
         dep_from n = None \<and> dep_resolved n = None \<and> dep_other n = [])
   \<and> dep_version (minimizeModule e m) = moduleVersion e m
   \<and> (dep_dependencies (minimizeModule e m) = None \<longleftrightarrow> dep_dependencies m = None)
   \<and> (\<forall>ds. dep_dependencies m = Some ds \<longrightarrow>
         dep_dependencies (minimizeModule e m) =
           Some (map (\<lambda>(name, subModule). (name, minimizeModule e subModule)) ds))"
proof -
  have mp: "map_prod id f = (\<lambda>(a, b). (a, f b))" for f :: "dep_obj \<Rightarrow> dep_obj"
    by auto
  have top: "minimizeDependencyTree e tree =
      DepObj None None None []
        (Some (map (\<lambda>(name, module). (name, minimizeModule e module))
               (case dep_dependencies tree of None \<Rightarrow> [] | Some ds \<Rightarrow> ds)))"
    by (simp add: minimizeDependencyTree_def mp)
  have all: "\<forall>n \<in> set (nodes (minimizeModule e m)).
         dep_from n = None \<and> dep_resolved n = None \<and> dep_other n = []"
  proof
    fix n assume "n \<in> set (nodes (minimizeModule e m))"
    then obtain m' where "n = minimizeModule e m'"
      by (auto simp: nodes_minimizeModule)
    then show "dep_from n = None \<and> dep_resolved n = None \<and> dep_other n = []"
      by (simp add: minimizeModule_eq[of e m'])
  qed
  have here: "dep_version (minimizeModule e m) = moduleVersion e m"
    "dep_dependencies (minimizeModule e m) = None \<longleftrightarrow> dep_dependencies m = None"
    "\<forall>ds. dep_dependencies m = Some ds \<longrightarrow>
         dep_dependencies (minimizeModule e m) =
           Some (map (\<lambda>(name, subModule). (name, minimizeModule e subModule)) ds)"
    by (simp_all add: minimizeModule_eq[of e m] mp)
  show ?thesis
    unfolding top dep_obj.sel
    by (intro conjI refl nodes_minimizeModule all here)
qed

theorem minimize_tree_shape_witness:
  "minimizeDependencyTree offlineEnv
     (DepObj (Some ''0.0.0'') None None [(''name'', ''packages'')]
        (Some [(''sockjs'',
                DepObj (Some ''0.3.4'') (Some ''sockjs@0.3.4'')
                  (Some ''https://registry.npmjs.org/sockjs/-/sockjs-0.3.4.tgz'') []
                  (Some [(''node-uuid'',
                          DepObj (Some ''1.3.3'') (Some ''node-uuid@1.3.3'') None
                            [(''optional'', ''true'')] None)]))]))
   = DepObj None None None []
       (Some [(''sockjs'',
               DepObj (Some ''0.3.4'') None None []
                 (Some [(''node-uuid'', DepObj (Some ''1.3.3'') None None [] None)]))])"
  using minimize_tree_shape[of offlineEnv
     "DepObj (Some ''0.0.0'') None None [(''name'', ''packages'')]
        (Some [(''sockjs'',
                DepObj (Some ''0.3.4'') (Some ''sockjs@0.3.4'')
                  (Some ''https://registry.npmjs.org/sockjs/-/sockjs-0.3.4.tgz'') []
                  (Some [(''node-uuid'',
                          DepObj (Some ''1.3.3'') (Some ''node-uuid@1.3.3'') None
                            [(''optional'', ''true'')] None)]))])"
     "DepObj (Some ''0.3.4'') (Some ''sockjs@0.3.4'')
                  (Some ''https://registry.npmjs.org/sockjs/-/sockjs-0.3.4.tgz'') []
                  (Some [(''node-uuid'',
                          DepObj (Some ''1.3.3'') (Some ''node-uuid@1.3.3'') None
                            [(''optional'', ''true'')] None)])"]
  by (simp add: minimizeDependencyTree_def pickVersion_def offlineEnv_def urlWithSha_def
      matchesRegistry_def registryPattern_def regexDot_def)

text \<open>
  C2 as stated fails: a node whose \<^verbatim>\<open>dependencies\<close> object is empty has no sub-dependencies,
  and its minimized form still has the \<^verbatim>\<open>dependencies\<close> field (an empty object).
\<close>

theorem minimize_empty_dependencies_counterexample:
  "dep_dependencies (minimizeModule offlineEnv
      (DepObj (Some ''1.0.0'') (Some ''foo@1.0.0'') None [] (Some []))) = Some []"
  by simp






section \<open>Facts about the file system\<close>

lemma map_of_filter_key:
  "map_of (filter (\<lambda>(k, v). k \<noteq> c) es) d = (if d = c then None else map_of es d)"
  by (induction es) auto

lemma map_of_map_key:
  "map_of (map (\<lambda>(k, v). if k = c then (k, f v) else (k, v)) es) d =
     (if d = c then map_option f (map_of es c) else map_of es d)"
  by (induction es) auto

lemma entry_at_Nil: "entry_at fs [] = (case fs of File s \<Rightarrow> Some (IsFile s) | Dir es \<Rightarrow> Some IsDir)"
  by (simp add: entry_at_def split: fsnode.splits)

lemma entry_at_File_Cons: "entry_at (File s) (c # cs) = None"
  by (simp add: entry_at_def)

lemma entry_at_Dir_Cons:
  "entry_at (Dir es) (c # cs) = (case map_of es c of None \<Rightarrow> None | Some ch \<Rightarrow> entry_at ch cs)"
  by (simp add: entry_at_def split: option.splits)

lemma entry_at_remove:
  "p \<noteq> [] \<Longrightarrow> entry_at (fs_remove p fs) q = (if prefix p q then None else entry_at fs q)"
proof (induction p arbitrary: fs q)
  case Nil
  then show ?case by simp
next
  case (Cons c cs)
  show ?case
  proof (cases fs)
    case (File s)
    then show ?thesis by (cases q) (simp_all add: entry_at_Nil entry_at_File_Cons)
  next
    case (Dir es)
    show ?thesis
    proof (cases q)
      case Nil
      then show ?thesis using Dir by (simp add: entry_at_Nil)
    next
      case (Cons d ds)
      show ?thesis
      proof (cases "cs = []")
        case True
        then show ?thesis using Dir Cons
          by (simp add: entry_at_Dir_Cons map_of_filter_key)
      next
        case False
        then show ?thesis using Dir Cons Cons.IH[OF False]
          by (auto simp: entry_at_Dir_Cons map_of_map_key split: option.splits)
      qed
    qed
  qed
qed

lemma entry_at_put:
  "p \<noteq> [] \<Longrightarrow> \<not> prefix p q \<Longrightarrow> entry_at (fs_put p new fs) q = entry_at fs q"
proof (induction p arbitrary: fs q)
  case Nil
  then show ?case by simp
next
  case (Cons c cs)
  show ?case
  proof (cases fs)
    case (File s)
    then show ?thesis by simp
  next
    case (Dir es)
    show ?thesis
    proof (cases q)
      case Nil
      then show ?thesis using Dir by (simp add: entry_at_Nil)
    next
      case (Cons d ds)
      show ?thesis
      proof (cases "c \<in> fst ` set es")
        case True
        show ?thesis
        proof (cases "cs = []")
          case True
          with Cons.prems Cons have "d \<noteq> c" by auto
          then show ?thesis using Dir Cons \<open>c \<in> fst ` set es\<close>
            by (simp add: entry_at_Dir_Cons map_of_map_key)
        next
          case False
          show ?thesis using Dir Cons \<open>c \<in> fst ` set es\<close> Cons.IH[OF False, of ds] Cons.prems
            by (auto simp: entry_at_Dir_Cons map_of_map_key split: option.splits)
        qed
      next
        case False
        then have none: "map_of es c = None" by (simp add: map_of_eq_None_iff)
        show ?thesis
        proof (cases "cs = []")
          case True
          with Cons.prems Cons have "d \<noteq> c" by auto
          then show ?thesis using Dir Cons False True
            by (auto simp: entry_at_Dir_Cons map_add_def split: option.splits)
        next
          case False
          then show ?thesis using Dir Cons \<open>c \<notin> fst ` set es\<close> by simp
        qed
      qed
    qed
  qed
qed

lemma lookup_parent:
  "fs_lookup fs p = Some n \<Longrightarrow> p \<noteq> [] \<Longrightarrow> \<exists>es. fs_lookup fs (butlast p) = Some (Dir es)"
proof (induction p arbitrary: fs)
  case Nil
  then show ?case by simp
next
  case (Cons c cs)
  then show ?case
    by (cases fs) (auto split: option.splits)
qed

lemma pathAppend_facts:
  assumes "s \<noteq> []"
  shows "pathAppend p s \<noteq> []" "pathAppend p s \<noteq> p"
    "\<not> prefix p (pathAppend p s) \<or> p = []" "\<not> prefix (pathAppend p s) p"
    "p \<noteq> [] \<Longrightarrow> butlast (pathAppend p s) = butlast p"
proof -
  show "pathAppend p s \<noteq> []" by (cases p rule: rev_cases) (simp_all add: pathAppend_def)
  show "pathAppend p s \<noteq> p" using assms
    by (cases p rule: rev_cases) (simp_all add: pathAppend_def)
  show "\<not> prefix p (pathAppend p s) \<or> p = []" using assms
    by (cases p rule: rev_cases) (auto simp: pathAppend_def prefix_def)
  show "\<not> prefix (pathAppend p s) p" using assms
    by (cases p rule: rev_cases) (auto simp: pathAppend_def prefix_def)
  show "p \<noteq> [] \<Longrightarrow> butlast (pathAppend p s) = butlast p"
    by (cases p rule: rev_cases) (simp_all add: pathAppend_def)
qed

section \<open>updateDependencies\<close>

lemma files_exists_entry: "files_exists p st \<longleftrightarrow> entry_at (st_fs st) p \<noteq> None"
  by (auto simp: files_exists_def entry_at_def split: option.splits fsnode.splits)

lemma updateDependencies_empty_eq:
  assumes "npmDependencies = None \<or> npmDependencies = Some []"
  shows "updateDependencies e pn dir npmDependencies quiet st =
     (case files_rename dir (tempPackageNpmDir e dir) st of
        (Inl ex, st1) \<Rightarrow> if exn_code ex \<noteq> Some ''ENOENT'' then (Inl ex, st1) else (Inr False, st1)
      | (Inr u, st1) \<Rightarrow>
          (Inr False, (logEvent (RmRecursive (tempPackageNpmDir e dir)) st1)
             \<lparr>st_fs := fs_remove (tempPackageNpmDir e dir) (st_fs st1)\<rparr>))"
  using assms
  by (auto simp: updateDependencies_def Let_def andThen_def tryCatch_def ok_def throw_def
      files_rm_recursive_def split: prod.splits sum.splits)

lemma files_rename_success:
  assumes "src \<noteq> []" "fs_lookup (st_fs st) src = Some n" "\<not> prefix src dst"
    "butlast dst = butlast src" "fs_lookup (st_fs st) dst = None"
  shows "files_rename src dst st =
     (Inr (), (logEvent (Rename src dst) st)\<lparr>st_fs := fs_put dst n (fs_remove src (st_fs st))\<rparr>)"
proof -
  from lookup_parent[OF assms(2) assms(1)] obtain es
    where "fs_lookup (st_fs st) (butlast src) = Some (Dir es)" by blast
  then show ?thesis using assms
    by (simp add: files_rename_def Let_def strict_prefix_def)
qed

text \<open>
  C4. With a falsey or empty dependency map: when the directory exists (and the temporary
  name, the directory's name followed by \<^verbatim>\<open>-temp-\<close> and the random token, is free),
  \<^verbatim>\<open>updateDependencies\<close> renames the directory to the temporary name, which differs from
  the real one, then deletes the temporary recursively, makes no other call, and returns
  false; afterwards neither name holds anything and every other path holds what it held.
  When the directory does not exist the rename fails with ENOENT, the call returns false
  and the file system is as before. Any other failure of the rename is thrown on.
\<close>

theorem update_dependencies_empty:
  assumes "npmDependencies = None \<or> npmDependencies = Some []"
  shows
    "(dir \<noteq> [] \<and> files_exists dir st \<and>
      \<not> files_exists (tempPackageNpmDir e dir) st \<longrightarrow>
       (let tmp = tempPackageNpmDir e dir;
            r = updateDependencies e pn dir npmDependencies quiet st in
        fst r = Inr False \<and> tmp \<noteq> dir \<and>
        st_trace (snd r) = st_trace st @ [Rename dir tmp, RmRecursive tmp] \<and>
        (\<forall>q. entry_at (st_fs (snd r)) q =
              (if prefix dir q \<or> prefix tmp q then None else entry_at (st_fs st) q)) \<and>
        \<not> files_exists dir (snd r) \<and> \<not> files_exists tmp (snd r)))
   \<and> (\<not> files_exists dir st \<longrightarrow>
        updateDependencies e pn dir npmDependencies quiet st =
          (Inr False, logEvent (Rename dir (tempPackageNpmDir e dir)) st))
   \<and> (\<forall>ex st1. files_rename dir (tempPackageNpmDir e dir) st = (Inl ex, st1) \<and>
          exn_code ex \<noteq> Some ''ENOENT'' \<longrightarrow>
        updateDependencies e pn dir npmDependencies quiet st = (Inl ex, st1))"
proof (intro conjI impI allI)
  define tmp where "tmp = tempPackageNpmDir e dir"
  have sfx: "''-temp-'' @ randomToken e \<noteq> []" by simp
  note pa = pathAppend_facts[OF sfx, of dir, folded tempPackageNpmDir_def, folded tmp_def]
  assume h: "dir \<noteq> [] \<and> files_exists dir st \<and>
      \<not> files_exists (tempPackageNpmDir e dir) st"
  then obtain n where n: "fs_lookup (st_fs st) dir = Some n"
    by (auto simp: files_exists_def)
  from h have free: "fs_lookup (st_fs st) tmp = None"
    by (simp add: files_exists_def tmp_def)
  from h pa have np: "\<not> prefix dir tmp" "butlast tmp = butlast dir" "tmp \<noteq> []" by auto
  have ren: "files_rename dir tmp st =
     (Inr (), (logEvent (Rename dir tmp) st)\<lparr>st_fs := fs_put tmp n (fs_remove dir (st_fs st))\<rparr>)"
    using h n np free by (intro files_rename_success) auto
  define st' where "st' = (logEvent (RmRecursive tmp)
       ((logEvent (Rename dir tmp) st)\<lparr>st_fs := fs_put tmp n (fs_remove dir (st_fs st))\<rparr>))
       \<lparr>st_fs := fs_remove tmp (fs_put tmp n (fs_remove dir (st_fs st)))\<rparr>"
  have r: "updateDependencies e pn dir npmDependencies quiet st = (Inr False, st')"
    by (simp add: updateDependencies_empty_eq[OF assms] ren[unfolded tmp_def] st'_def tmp_def)
  have ent: "entry_at (st_fs st') q =
      (if prefix dir q \<or> prefix tmp q then None else entry_at (st_fs st) q)" for q
    using h np by (simp add: st'_def entry_at_remove entry_at_put)
  have "\<not> files_exists dir st'" "\<not> files_exists tmp st'"
    by (simp_all add: files_exists_entry ent)
  moreover have "st_trace st' = st_trace st @ [Rename dir tmp, RmRecursive tmp]"
    by (simp add: st'_def logEvent_def)
  ultimately show "let tmp = tempPackageNpmDir e dir;
            r = updateDependencies e pn dir npmDependencies quiet st in
        fst r = Inr False \<and> tmp \<noteq> dir \<and>
        st_trace (snd r) = st_trace st @ [Rename dir tmp, RmRecursive tmp] \<and>
        (\<forall>q. entry_at (st_fs (snd r)) q =
              (if prefix dir q \<or> prefix tmp q then None else entry_at (st_fs st) q)) \<and>
        \<not> files_exists dir (snd r) \<and> \<not> files_exists tmp (snd r)"
    using ent pa(2) by (simp add: Let_def r[unfolded tmp_def] tmp_def)
next
  assume "\<not> files_exists dir st"
  then show "updateDependencies e pn dir npmDependencies quiet st =
          (Inr False, logEvent (Rename dir (tempPackageNpmDir e dir)) st)"
    by (simp add: updateDependencies_empty_eq[OF assms] files_rename_def files_exists_def Let_def)
next
  fix ex st1
  assume "files_rename dir (tempPackageNpmDir e dir) st = (Inl ex, st1) \<and>
          exn_code ex \<noteq> Some ''ENOENT''"
  then show "updateDependencies e pn dir npmDependencies quiet st = (Inl ex, st1)"
    by (simp add: updateDependencies_empty_eq[OF assms])
qed

theorem update_dependencies_empty_witness:
  "(Some [] = (None :: (string \<times> string) list option) \<or>
    Some [] = Some ([] :: (string \<times> string) list))
   \<and> [''pkg'', ''.npm''] \<noteq> []
   \<and> files_exists [''pkg'', ''.npm''] (freshState installedFs)
   \<and> \<not> files_exists (tempPackageNpmDir offlineEnv [''pkg'', ''.npm'']) (freshState installedFs)
   \<and> fst (updateDependencies offlineEnv ''pkg'' [''pkg'', ''.npm''] (Some []) True
            (freshState installedFs)) = Inr False
   \<and> st_trace (snd (updateDependencies offlineEnv ''pkg'' [''pkg'', ''.npm''] (Some []) True
            (freshState installedFs))) =
       [Rename [''pkg'', ''.npm''] [''pkg'', ''.npm-temp-k3x9''],
        RmRecursive [''pkg'', ''.npm-temp-k3x9'']]
   \<and> \<not> files_exists [''pkg'', ''.npm'']
         (snd (updateDependencies offlineEnv ''pkg'' [''pkg'', ''.npm''] (Some []) True
            (freshState installedFs)))"
proof -
  have h: "Some [] = (None :: (string \<times> string) list option) \<or>
    Some [] = Some ([] :: (string \<times> string) list)" by simp
  have h2: "[''pkg'', ''.npm''] \<noteq> []
   \<and> files_exists [''pkg'', ''.npm''] (freshState installedFs)
   \<and> \<not> files_exists (tempPackageNpmDir offlineEnv [''pkg'', ''.npm'']) (freshState installedFs)"
    by (simp add: files_exists_def freshState_def installedFs_def tempPackageNpmDir_def
        pathAppend_def offlineEnv_def)
  have t: "tempPackageNpmDir offlineEnv [''pkg'', ''.npm''] = [''pkg'', ''.npm-temp-k3x9'']"
    by (simp add: tempPackageNpmDir_def pathAppend_def offlineEnv_def)
  show ?thesis
    using h2 update_dependencies_empty[OF h, of "[''pkg'', ''.npm'']" "freshState installedFs"
        offlineEnv "''pkg''" True]
    by (simp add: Let_def t freshState_def)
qed

text \<open>
  C7. With a manifest that is not empty, when the directory exists and holds no
  \<^verbatim>\<open>npm-shrinkwrap.json\<close>, \<^verbatim>\<open>updateDependencies\<close> deletes the directory recursively (nothing
  is left at or below its path, every other path holds what it held) and then runs
  \<^verbatim>\<open>createFreshNpmDirectory\<close>, not \<^verbatim>\<open>updateExistingNpmDirectory\<close>, on what is left.
\<close>

theorem corrupted_directory_recreated:
  assumes "deps \<noteq> []" "dir \<noteq> []" "files_exists dir st"
    "\<not> files_exists (dir @ [''npm-shrinkwrap.json'']) st"
  shows
    "(let st1 = (logEvent (RmRecursive dir) st)\<lparr>st_fs := fs_remove dir (st_fs st)\<rparr> in
      \<not> files_exists dir st1 \<and>
      (\<forall>q. entry_at (st_fs st1) q = (if prefix dir q then None else entry_at (st_fs st) q)) \<and>
      reconcile e pn dir deps quiet st = createFreshNpmDirectory e pn dir deps quiet st1 \<and>
      updateDependencies e pn dir (Some deps) quiet st =
        tryCatch (andThen (createFreshNpmDirectory e pn dir deps quiet) (\<lambda>_. ok True))
          (\<lambda>ex. if ex = NpmFailure then ok False else throw ex) st1)"
proof -
  define st1 where "st1 = (logEvent (RmRecursive dir) st)\<lparr>st_fs := fs_remove dir (st_fs st)\<rparr>"
  have ent: "entry_at (st_fs st1) q = (if prefix dir q then None else entry_at (st_fs st) q)" for q
    using assms(2) by (simp add: st1_def entry_at_remove)
  have gone: "\<not> files_exists dir st1"
    by (simp add: files_exists_entry ent)
  have rec: "reconcile e pn dir deps quiet st = createFreshNpmDirectory e pn dir deps quiet st1"
    using assms(3,4) gone
    by (simp add: reconcile_def andThen_def ifM_def files_rm_recursive_def st1_def)
  have "updateDependencies e pn dir (Some deps) quiet st =
        tryCatch (andThen (createFreshNpmDirectory e pn dir deps quiet) (\<lambda>_. ok True))
          (\<lambda>ex. if ex = NpmFailure then ok False else throw ex) st1"
    using assms(1) by (simp add: updateDependencies_def tryCatch_def andThen_def rec)
  with ent gone rec show ?thesis by (simp add: Let_def st1_def[symmetric])
qed

theorem corrupted_directory_recreated_witness:
  "[(''a'', ''1.0.0'')] \<noteq> [] \<and> [''pkg'', ''.npm''] \<noteq> []
   \<and> files_exists [''pkg'', ''.npm''] (freshState corruptedFs)
   \<and> \<not> files_exists ([''pkg'', ''.npm''] @ [''npm-shrinkwrap.json'']) (freshState corruptedFs)
   \<and> reconcile offlineEnv ''pkg'' [''pkg'', ''.npm''] [(''a'', ''1.0.0'')] True
        (freshState corruptedFs) =
       createFreshNpmDirectory offlineEnv ''pkg'' [''pkg'', ''.npm''] [(''a'', ''1.0.0'')] True
         \<lparr>st_fs = Dir [(''pkg'', Dir [(''package.js'', File ''Npm.depends'')])],
          st_errors = [], st_log = [], st_trace = [RmRecursive [''pkg'', ''.npm'']]\<rparr>"
proof -
  have h: "[(''a'', ''1.0.0'')] \<noteq> ([] :: (string \<times> string) list)" "[''pkg'', ''.npm''] \<noteq> []"
    "files_exists [''pkg'', ''.npm''] (freshState corruptedFs)"
    "\<not> files_exists ([''pkg'', ''.npm''] @ [''npm-shrinkwrap.json'']) (freshState corruptedFs)"
    by (simp_all add: files_exists_def freshState_def corruptedFs_def)
  have s: "(logEvent (RmRecursive [''pkg'', ''.npm'']) (freshState corruptedFs))
             \<lparr>st_fs := fs_remove [''pkg'', ''.npm''] (st_fs (freshState corruptedFs))\<rparr> =
           \<lparr>st_fs = Dir [(''pkg'', Dir [(''package.js'', File ''Npm.depends'')])],
            st_errors = [], st_log = [], st_trace = [RmRecursive [''pkg'', ''.npm'']]\<rparr>"
    by (simp add: logEvent_def freshState_def corruptedFs_def)
  show ?thesis
    using h corrupted_directory_recreated[OF h, of offlineEnv "''pkg''" True]
    by (simp add: Let_def s)
qed

lemma stamp_not_current: "currentNodeCompatibilityVersion e \<noteq> ''v0.8.24''"
  by (simp add: currentNodeCompatibilityVersion_def newline_def append_eq_Cons_conv)

lemma rebuildOnNodeChange_eq:
  assumes "files_exists (dir @ [''node_modules'']) st"
  shows "rebuildOnNodeChange e dir st =
     (case files_readFile (dir @ [''node_modules'', ''.node_version'']) st of
        (Inl ex, st1) \<Rightarrow>
          if exn_code ex \<noteq> Some ''ENOENT'' then (Inl ex, st1)
          else if ''v0.8.24'' \<noteq> currentNodeCompatibilityVersion e
               then files_rm_recursive (dir @ [''node_modules'']) st1 else (Inr (), st1)
      | (Inr oldNodeVersion, st1) \<Rightarrow>
          if oldNodeVersion \<noteq> currentNodeCompatibilityVersion e
          then files_rm_recursive (dir @ [''node_modules'']) st1 else (Inr (), st1))"
  using assms
  by (auto simp: rebuildOnNodeChange_def Let_def ifM_def andThen_def tryCatch_def ok_def throw_def
      split: prod.splits sum.splits)

text \<open>
  C8 (as amended). In an update of an existing directory, when \<^verbatim>\<open>node_modules\<close> exists and
  the stamp in \<^verbatim>\<open>node_modules/.node_version\<close> is not the current compatibility version, the
  step deletes \<^verbatim>\<open>node_modules\<close> recursively and does nothing else: nothing is left at or
  below \<^verbatim>\<open>node_modules\<close>, so the copies \<^verbatim>\<open>node_modules/.package.json\<close> and
  \<^verbatim>\<open>node_modules/.npm-shrinkwrap.json\<close> go with it, and every path outside it, the lock file
  \<^verbatim>\<open>npm-shrinkwrap.json\<close> of the directory among them, holds what it held.
\<close>

theorem node_change_deletes_node_modules:
  assumes "files_exists (dir @ [''node_modules'']) st"
    "fs_lookup (st_fs st) (dir @ [''node_modules'', ''.node_version'']) = Some (File old)"
    "old \<noteq> currentNodeCompatibilityVersion e"
  shows
    "(let nm = dir @ [''node_modules''];
          st1 = (logEvent (RmRecursive nm) st)\<lparr>st_fs := fs_remove nm (st_fs st)\<rparr> in
      rebuildOnNodeChange e dir st = (Inr (), st1) \<and>
      (\<forall>q. entry_at (st_fs st1) q = (if prefix nm q then None else entry_at (st_fs st) q)) \<and>
      \<not> files_exists nm st1 \<and>
      \<not> files_exists (nm @ [''.package.json'']) st1 \<and>
      \<not> files_exists (nm @ [''.npm-shrinkwrap.json'']) st1 \<and>
      entry_at (st_fs st1) (dir @ [''npm-shrinkwrap.json'']) =
        entry_at (st_fs st) (dir @ [''npm-shrinkwrap.json'']))"
proof -
  define nm where "nm = dir @ [''node_modules'']"
  define st1 where "st1 = (logEvent (RmRecursive nm) st)\<lparr>st_fs := fs_remove nm (st_fs st)\<rparr>"
  have ent: "entry_at (st_fs st1) q = (if prefix nm q then None else entry_at (st_fs st) q)" for q
    by (simp add: st1_def nm_def entry_at_remove)
  have run: "rebuildOnNodeChange e dir st = (Inr (), st1)"
    using assms(2,3)
    by (simp add: rebuildOnNodeChange_eq[OF assms(1)] files_readFile_def files_rm_recursive_def
        st1_def nm_def)
  have out: "\<not> prefix nm (dir @ [''npm-shrinkwrap.json''])"
    by (simp add: nm_def)
  show ?thesis
    unfolding Let_def nm_def[symmetric] st1_def[symmetric]
    using run ent out by (simp add: files_exists_entry)
qed

theorem node_change_deletes_node_modules_witness:
  "files_exists ([''pkg'', ''.npm''] @ [''node_modules'']) (freshState installedFs)
   \<and> fs_lookup (st_fs (freshState installedFs))
        ([''pkg'', ''.npm''] @ [''node_modules'', ''.node_version'']) =
       Some (File (''v0.10.*'' @ newline))
   \<and> ''v0.10.*'' @ newline \<noteq> currentNodeCompatibilityVersion offlineEnv
   \<and> fst (rebuildOnNodeChange offlineEnv [''pkg'', ''.npm''] (freshState installedFs)) = Inr ()
   \<and> st_fs (snd (rebuildOnNodeChange offlineEnv [''pkg'', ''.npm''] (freshState installedFs))) =
       Dir [(''pkg'',
             Dir [(''package.js'', File ''Npm.depends''),
                  (''.npm'',
                   Dir [(''npm-shrinkwrap.json'', File ''{}''),
                        (''README'', File ''generated''),
                        (''.gitignore'', File ''node_modules'')])])]"
proof -
  have h: "files_exists ([''pkg'', ''.npm''] @ [''node_modules'']) (freshState installedFs)"
    "fs_lookup (st_fs (freshState installedFs))
        ([''pkg'', ''.npm''] @ [''node_modules'', ''.node_version'']) =
       Some (File (''v0.10.*'' @ newline))"
    "''v0.10.*'' @ newline \<noteq> currentNodeCompatibilityVersion offlineEnv"
    by (simp_all add: files_exists_def freshState_def installedFs_def
        currentNodeCompatibilityVersion_def replacePatch_def isDigit_def offlineEnv_def)
  have s: "fs_remove [''pkg'', ''.npm'', ''node_modules''] (st_fs (freshState installedFs)) =
       Dir [(''pkg'',
             Dir [(''package.js'', File ''Npm.depends''),
                  (''.npm'',
                   Dir [(''npm-shrinkwrap.json'', File ''{}''),
                        (''README'', File ''generated''),
                        (''.gitignore'', File ''node_modules'')])])]"
    by (simp add: freshState_def installedFs_def)
  show ?thesis
    using h node_change_deletes_node_modules[OF h]
    by (simp add: Let_def s)
qed

text \<open>
  C8 as stated fails for the copies of the manifest and of the lock file: they are kept in
  \<^verbatim>\<open>node_modules\<close>, and after the step neither is there.
\<close>

theorem node_change_deletes_copies_counterexample:
  "files_exists [''pkg'', ''.npm'', ''node_modules'', ''.package.json''] (freshState installedFs)
   \<and> files_exists [''pkg'', ''.npm'', ''node_modules'', ''.npm-shrinkwrap.json'']
        (freshState installedFs)
   \<and> \<not> files_exists [''pkg'', ''.npm'', ''node_modules'', ''.package.json'']
        (snd (rebuildOnNodeChange offlineEnv [''pkg'', ''.npm''] (freshState installedFs)))
   \<and> \<not> files_exists [''pkg'', ''.npm'', ''node_modules'', ''.npm-shrinkwrap.json'']
        (snd (rebuildOnNodeChange offlineEnv [''pkg'', ''.npm''] (freshState installedFs)))"
  by (simp add: files_exists_def freshState_def installedFs_def rebuildOnNodeChange_def Let_def
      ifM_def andThen_def tryCatch_def files_readFile_def files_rm_recursive_def logEvent_def
      ok_def throw_def currentNodeCompatibilityVersion_def replacePatch_def isDigit_def
      offlineEnv_def newline_def)

lemma andThen_ok: "andThen (ok x) f = f x"
  by (rule ext) (simp add: andThen_def ok_def)

lemma andThen_throw: "andThen (throw ex) f = throw ex"
  by (rule ext) (simp add: andThen_def throw_def)

lemma updateExisting_after_removal:
  assumes "files_stat_isDirectory dir st = (Inr True, st)"
    "files_exists (dir @ [''npm-shrinkwrap.json'']) st"
    "rebuildOnNodeChange e dir st = (Inr (), st1)"
    "\<not> files_exists (dir @ [''node_modules'']) st1"
  shows "updateExistingNpmDirectory e pn dir deps quiet st =
     andThen (installNpmModules e deps pn dir) (\<lambda>_. completeNpmDirectory e pn dir deps) st1"
  using assms
  by (simp add: updateExistingNpmDirectory_def andThen_def ifM_def
      recreateWithoutCopies_def Let_def ok_def split: prod.splits sum.splits)


lemma updateExisting_rebuild_throws:
  assumes "files_stat_isDirectory dir st = (Inr True, st)"
    "files_exists (dir @ [''npm-shrinkwrap.json'']) st"
    "rebuildOnNodeChange e dir st = (Inl ex, st1)"
  shows "updateExistingNpmDirectory e pn dir deps quiet st = (Inl ex, st1)"
  using assms
  by (simp add: updateExistingNpmDirectory_def andThen_def ifM_def)

text \<open>
  C10. In \<^verbatim>\<open>updateExistingNpmDirectory\<close>, when \<^verbatim>\<open>node_modules\<close> exists and reading
  \<^verbatim>\<open>node_modules/.node_version\<close> fails with ENOENT, the stamp is taken to be \<^verbatim>\<open>v0.8.24\<close>:
  \<^verbatim>\<open>node_modules\<close> is deleted when the current node compatibility version is not that
  string (which, ending in a newline, it never is), and the update goes on with a
  directory without \<^verbatim>\<open>node_modules\<close>: it installs, skips prune and dedupe, and completes
  the directory. A read that fails with another code is thrown on by
  \<^verbatim>\<open>updateExistingNpmDirectory\<close> and by \<^verbatim>\<open>updateDependencies\<close>.
\<close>

theorem missing_stamp_fallback:
  assumes "files_stat_isDirectory dir st = (Inr True, st)"
    "files_exists (dir @ [''npm-shrinkwrap.json'']) st"
    "files_exists (dir @ [''node_modules'']) st"
    "deps \<noteq> []"
  shows
    "(fs_lookup (st_fs st) (dir @ [''node_modules'', ''.node_version'']) = None \<longrightarrow>
       files_readFile (dir @ [''node_modules'', ''.node_version'']) st = (Inl (FsError ''ENOENT''), st) \<and>
       rebuildOnNodeChange e dir st =
         (if ''v0.8.24'' \<noteq> currentNodeCompatibilityVersion e
          then files_rm_recursive (dir @ [''node_modules'']) st else ok () st) \<and>
       (currentNodeCompatibilityVersion e \<noteq> ''v0.8.24'' \<longrightarrow>
          (let st1 = (logEvent (RmRecursive (dir @ [''node_modules''])) st)
                       \<lparr>st_fs := fs_remove (dir @ [''node_modules'']) (st_fs st)\<rparr> in
           rebuildOnNodeChange e dir st = (Inr (), st1) \<and>
           \<not> files_exists (dir @ [''node_modules'']) st1 \<and>
           updateExistingNpmDirectory e pn dir deps quiet st =
             andThen (installNpmModules e deps pn dir)
               (\<lambda>_. completeNpmDirectory e pn dir deps) st1)))
   \<and> (\<forall>ex st1. files_readFile (dir @ [''node_modules'', ''.node_version'']) st = (Inl ex, st1) \<and>
          exn_code ex \<noteq> Some ''ENOENT'' \<longrightarrow>
        rebuildOnNodeChange e dir st = (Inl ex, st1) \<and>
        updateExistingNpmDirectory e pn dir deps quiet st = (Inl ex, st1) \<and>
        updateDependencies e pn dir (Some deps) quiet st = (Inl ex, st1))"
proof (intro conjI impI allI)
  assume none: "fs_lookup (st_fs st) (dir @ [''node_modules'', ''.node_version'']) = None"
  then show rd: "files_readFile (dir @ [''node_modules'', ''.node_version'']) st =
      (Inl (FsError ''ENOENT''), st)"
    by (simp add: files_readFile_def)
  show rb: "rebuildOnNodeChange e dir st =
         (if ''v0.8.24'' \<noteq> currentNodeCompatibilityVersion e
          then files_rm_recursive (dir @ [''node_modules'']) st else ok () st)"
    by (simp add: rebuildOnNodeChange_eq[OF assms(3)] rd ok_def)
  assume "currentNodeCompatibilityVersion e \<noteq> ''v0.8.24''"
  define st1 where "st1 = (logEvent (RmRecursive (dir @ [''node_modules''])) st)
                       \<lparr>st_fs := fs_remove (dir @ [''node_modules'']) (st_fs st)\<rparr>"
  have run: "rebuildOnNodeChange e dir st = (Inr (), st1)"
    using stamp_not_current[of e] by (auto simp: rb files_rm_recursive_def st1_def)
  have gone: "\<not> files_exists (dir @ [''node_modules'']) st1"
    by (simp add: st1_def files_exists_entry entry_at_remove)
  show "let st1 = (logEvent (RmRecursive (dir @ [''node_modules''])) st)
                       \<lparr>st_fs := fs_remove (dir @ [''node_modules'']) (st_fs st)\<rparr> in
           rebuildOnNodeChange e dir st = (Inr (), st1) \<and>
           \<not> files_exists (dir @ [''node_modules'']) st1 \<and>
           updateExistingNpmDirectory e pn dir deps quiet st =
             andThen (installNpmModules e deps pn dir)
               (\<lambda>_. completeNpmDirectory e pn dir deps) st1"
    unfolding Let_def st1_def[symmetric]
    using run gone updateExisting_after_removal[OF assms(1,2) run gone] by simp
next
  fix ex st1
  assume h: "files_readFile (dir @ [''node_modules'', ''.node_version'']) st = (Inl ex, st1) \<and>
          exn_code ex \<noteq> Some ''ENOENT''"
  then show rb: "rebuildOnNodeChange e dir st = (Inl ex, st1)"
    by (simp add: rebuildOnNodeChange_eq[OF assms(3)])
  then show ue: "updateExistingNpmDirectory e pn dir deps quiet st = (Inl ex, st1)"
    by (rule updateExisting_rebuild_throws[OF assms(1,2)])
  from h have "ex \<noteq> NpmFailure"
    by (auto simp: files_readFile_def split: option.splits fsnode.splits)
  moreover have "files_exists dir st" using assms(1)
    by (auto simp: files_exists_def files_stat_isDirectory_def split: option.splits)
  ultimately show "updateDependencies e pn dir (Some deps) quiet st = (Inl ex, st1)"
    using assms(2,4) ue
    by (simp add: updateDependencies_def tryCatch_def andThen_def reconcile_def ifM_def ok_def
        throw_def)
qed

theorem missing_stamp_fallback_witness:
  "files_stat_isDirectory [''pkg'', ''.npm''] (freshState unstampedFs) =
     (Inr True, freshState unstampedFs)
   \<and> files_exists ([''pkg'', ''.npm''] @ [''npm-shrinkwrap.json'']) (freshState unstampedFs)
   \<and> files_exists ([''pkg'', ''.npm''] @ [''node_modules'']) (freshState unstampedFs)
   \<and> fs_lookup (st_fs (freshState unstampedFs))
        ([''pkg'', ''.npm''] @ [''node_modules'', ''.node_version'']) = None
   \<and> currentNodeCompatibilityVersion offlineEnv \<noteq> ''v0.8.24''
   \<and> rebuildOnNodeChange offlineEnv [''pkg'', ''.npm''] (freshState unstampedFs) =
       (Inr (),
        \<lparr>st_fs = Dir [(''pkg'', Dir [(''.npm'', Dir [(''npm-shrinkwrap.json'', File ''{}'')])])],
         st_errors = [], st_log = [],
         st_trace = [RmRecursive [''pkg'', ''.npm'', ''node_modules'']]\<rparr>)
   \<and> files_readFile ([''pkg'', ''.npm''] @ [''node_modules'', ''.node_version''])
        (freshState stampDirFs) = (Inl (FsError ''EISDIR''), freshState stampDirFs)
   \<and> updateDependencies offlineEnv ''pkg'' [''pkg'', ''.npm''] (Some [(''a'', ''1.0.0'')]) True
        (freshState stampDirFs) = (Inl (FsError ''EISDIR''), freshState stampDirFs)"
proof -
  have d: "[(''a'', ''1.0.0'')] \<noteq> ([] :: (string \<times> string) list)" by simp
  have h: "files_stat_isDirectory [''pkg'', ''.npm''] (freshState unstampedFs) =
     (Inr True, freshState unstampedFs)"
    "files_exists ([''pkg'', ''.npm''] @ [''npm-shrinkwrap.json'']) (freshState unstampedFs)"
    "files_exists ([''pkg'', ''.npm''] @ [''node_modules'']) (freshState unstampedFs)"
    by (simp_all add: files_stat_isDirectory_def files_exists_def freshState_def unstampedFs_def)
  have n: "fs_lookup (st_fs (freshState unstampedFs))
        ([''pkg'', ''.npm''] @ [''node_modules'', ''.node_version'']) = None"
    "currentNodeCompatibilityVersion offlineEnv \<noteq> ''v0.8.24''"
    by (simp_all add: freshState_def unstampedFs_def currentNodeCompatibilityVersion_def
        newline_def)
  have s: "(logEvent (RmRecursive [''pkg'', ''.npm'', ''node_modules'']) (freshState unstampedFs))
             \<lparr>st_fs := fs_remove [''pkg'', ''.npm'', ''node_modules'']
                         (st_fs (freshState unstampedFs))\<rparr> =
        \<lparr>st_fs = Dir [(''pkg'', Dir [(''.npm'', Dir [(''npm-shrinkwrap.json'', File ''{}'')])])],
         st_errors = [], st_log = [],
         st_trace = [RmRecursive [''pkg'', ''.npm'', ''node_modules'']]\<rparr>"
    by (simp add: logEvent_def freshState_def unstampedFs_def)
  have h': "files_stat_isDirectory [''pkg'', ''.npm''] (freshState stampDirFs) =
     (Inr True, freshState stampDirFs)"
    "files_exists ([''pkg'', ''.npm''] @ [''npm-shrinkwrap.json'']) (freshState stampDirFs)"
    "files_exists ([''pkg'', ''.npm''] @ [''node_modules'']) (freshState stampDirFs)"
    by (simp_all add: files_stat_isDirectory_def files_exists_def freshState_def stampDirFs_def)
  have r: "files_readFile ([''pkg'', ''.npm''] @ [''node_modules'', ''.node_version''])
        (freshState stampDirFs) = (Inl (FsError ''EISDIR''), freshState stampDirFs)"
    by (simp add: files_readFile_def freshState_def stampDirFs_def)
  have c: "exn_code (FsError ''EISDIR'') \<noteq> Some ''ENOENT''" by simp
  show ?thesis
    using h n r
      missing_stamp_fallback[OF h d, of offlineEnv "''pkg''" True]
      missing_stamp_fallback[OF h' d, of offlineEnv "''pkg''" True, THEN conjunct2, rule_format,
        OF conjI[OF r c]]
    by (simp add: Let_def s files_rm_recursive_def)
qed

section \<open>Failures\<close>

text \<open>The definitions that a run of the model on a given state unfolds.\<close>

lemmas run_defs =
  updateDependencies_def tryCatch_def andThen_def ok_def throw_def reconcile_def ifM_def
  files_exists_def freshState_def createFreshNpmDirectory_def installNpmModules_def runInstall_def
  files_mkdir_p_def fs_mkdir_p_def logEvent_def constructPackageJson_def files_writeFile_def
  fs_write_def ensureConnected_def getInstalledDependencies_def getInstalledDependenciesTree_def
  runNpmCommand_def treeToDependencies_def installArgs_def objGet_def installArg_def urlWithSha_def
  checkColons_def files_findPathsWithColon_def hasColon_def pathString_def
  buildmessage_error_def Let_def updateExistingNpmDirectory_def files_stat_isDirectory_def
  rebuildOnNodeChange_def files_readFile_def files_rm_recursive_def recreateWithoutCopies_def
  currentNodeCompatibilityVersion_def replacePatch_def isDigit_def newline_def
  files_rename_def tempPackageNpmDir_def pathAppend_def strict_prefix_def

text \<open>
  C5. An existing, complete directory made under another node version, a manifest with one
  package and no network: \<^verbatim>\<open>updateDependencies\<close> returns false, and the directory is not
  what it was: \<^verbatim>\<open>node_modules\<close> has been deleted and made again, empty, so the installed
  package is gone, and a \<^verbatim>\<open>package.json\<close> has been written.
\<close>

theorem failed_update_leaves_changes:
  "fst (updateDependencies offlineEnv ''pkg'' [''pkg'', ''.npm''] (Some [(''a'', ''1.0.0'')]) True
         (freshState installedFs)) = Inr False
   \<and> st_fs (snd (updateDependencies offlineEnv ''pkg'' [''pkg'', ''.npm''] (Some [(''a'', ''1.0.0'')])
         True (freshState installedFs))) =
       Dir [(''pkg'',
             Dir [(''package.js'', File ''Npm.depends''),
                  (''.npm'',
                   Dir [(''npm-shrinkwrap.json'', File ''{}''),
                        (''README'', File ''generated''),
                        (''.gitignore'', File ''node_modules''),
                        (''node_modules'', Dir []),
                        (''package.json'', File (''{}'' @ newline))])])]
   \<and> st_trace (snd (updateDependencies offlineEnv ''pkg'' [''pkg'', ''.npm''] (Some [(''a'', ''1.0.0'')])
         True (freshState installedFs))) =
       [RmRecursive [''pkg'', ''.npm'', ''node_modules''],
        MkdirP [''pkg'', ''.npm'', ''node_modules''],
        WriteFile [''pkg'', ''.npm'', ''package.json''] (''{}'' @ newline),
        GetUrl ''http://registry.npmjs.org'']"
  by (simp add: run_defs offlineEnv_def installedFs_def)

section \<open>Paths with colons\<close>

lemma firstTen_short: "length ps \<le> 10 \<Longrightarrow> firstTen ps = ps"
  by (simp add: firstTen_def)

lemma firstTen_long:
  "10 < length ps \<Longrightarrow>
   firstTen ps = take 10 ps @ [''... '' @ decimal (length (drop 10 ps)) @ '' paths omitted.'']"
  by (simp add: firstTen_def)

lemma digitChar_value: "of_char (digitChar n) - 48 = n mod 10"
proof -
  have "\<forall>k \<in> {..<10}. (of_char (''0123456789'' ! k) :: nat) - 48 = k"
    by (simp add: lessThan_nat_numeral lessThan_Suc)
  then show ?thesis by (simp add: digitChar_def)
qed

lemma decimalValue_snoc: "decimalValue (s @ [c]) = 10 * decimalValue s + (of_char c - 48)"
  by (simp add: decimalValue_def)

lemma decimalValue_decimal: "decimalValue (decimal n) = n"
proof (induction n rule: decimal.induct)
  case (1 n)
  show ?case
  proof (cases "n < 10")
    case True
    then show ?thesis
      using decimalValue_snoc[of "[]" "digitChar n"]
      by (simp add: decimal.simps[of n] digitChar_value decimalValue_def)
  next
    case False
    with 1 have "decimalValue (decimal (n div 10)) = n div 10" by simp
    with False show ?thesis
      by (simp add: decimal.simps[of n] decimalValue_snoc digitChar_value)
  qed
qed

lemma updateDependencies_NpmFailure:
  assumes "deps \<noteq> []" "reconcile e pn dir deps quiet st = (Inl NpmFailure, st')"
  shows "updateDependencies e pn dir (Some deps) quiet st = (Inr False, st')"
  using assms by (simp add: updateDependencies_def tryCatch_def andThen_def ok_def)

lemma checkColons_eq:
  assumes "process_platform e \<noteq> ''win32''"
    "fs_lookup (st_fs st) (dir @ [''node_modules'']) = Some (Dir es)"
  shows "checkColons e dir st =
           (if filter hasColon (map pathString (relPaths es)) = [] then (Inr (), st)
            else (Inl NpmFailure,
                  st\<lparr>st_errors := st_errors st @
                     [Text (colonMessage (filter hasColon (map pathString (relPaths es))))]\<rparr>))"
  using assms
  by (simp add: checkColons_def Let_def andThen_def files_findPathsWithColon_def ok_def
      buildmessage_error_def throw_def)

lemma installNpmModules_success:
  assumes "runInstall e deps pn dir st = (Inr result, st1)" "success result"
  shows "installNpmModules e deps pn dir st = checkColons e dir st1"
  using assms by (simp add: installNpmModules_def andThen_def)

lemma exists_child_isDirectory:
  assumes "files_exists (dir @ [c]) st"
  shows "files_stat_isDirectory dir st = (Inr True, st)" "files_exists dir st"
proof -
  from assms obtain n where "fs_lookup (st_fs st) (dir @ [c]) = Some n"
    by (auto simp: files_exists_def)
  from lookup_parent[OF this] obtain es where "fs_lookup (st_fs st) dir = Some (Dir es)"
    by auto
  then show "files_stat_isDirectory dir st = (Inr True, st)" "files_exists dir st"
    by (simp_all add: files_stat_isDirectory_def files_exists_def)
qed

lemma createFresh_install_throws:
  assumes "installNpmModules e deps pn dir
             (if quiet then st else snd (logUpdateDependencies pn deps st)) = (Inl ex, st')"
  shows "createFreshNpmDirectory e pn dir deps quiet st = (Inl ex, st')"
  using assms
  by (cases quiet)
     (simp_all add: createFreshNpmDirectory_def andThen_def ok_def logUpdateDependencies_def
        runLog_log_def)

lemma recreateWithoutCopies_ok:
  "recreateWithoutCopies dir s = (Inr (), snd (recreateWithoutCopies dir s))"
  by (simp add: recreateWithoutCopies_def Let_def ifM_def files_rm_recursive_def ok_def)

lemma updateExisting_install_throws:
  assumes "files_exists (dir @ [''npm-shrinkwrap.json'']) st"
    "rebuildOnNodeChange e dir st = (Inr (), sa)"
    "installNpmModules e deps pn dir (snd (recreateWithoutCopies dir sa)) = (Inl ex, st')"
  shows "updateExistingNpmDirectory e pn dir deps quiet st = (Inl ex, st')"
proof -
  obtain sb where sb: "recreateWithoutCopies dir sa = (Inr (), sb)"
    using recreateWithoutCopies_ok by blast
  with assms(3) have "installNpmModules e deps pn dir sb = (Inl ex, st')" by simp
  then show ?thesis
    using assms(1,2) sb exists_child_isDirectory(1)[OF assms(1)]
    by (simp add: updateExistingNpmDirectory_def andThen_def ifM_def ok_def)
qed

lemma reconcile_fresh:
  assumes "\<not> files_exists dir st"
  shows "reconcile e pn dir deps quiet st = createFreshNpmDirectory e pn dir deps quiet st"
  using assms by (simp add: reconcile_def andThen_def ifM_def ok_def)

lemma reconcile_corrupted:
  assumes "dir \<noteq> []" "files_exists dir st" "\<not> files_exists (dir @ [''npm-shrinkwrap.json'']) st"
  shows "reconcile e pn dir deps quiet st =
           createFreshNpmDirectory e pn dir deps quiet (snd (files_rm_recursive dir st))"
proof -
  have "\<not> files_exists dir (snd (files_rm_recursive dir st))"
    using assms(1) by (simp add: files_rm_recursive_def files_exists_entry entry_at_remove)
  then show ?thesis
    using assms(2,3)
    by (simp add: reconcile_def andThen_def ifM_def files_rm_recursive_def)
qed

lemma reconcile_incremental:
  assumes "files_exists (dir @ [''npm-shrinkwrap.json'']) st"
  shows "reconcile e pn dir deps quiet st = updateExistingNpmDirectory e pn dir deps quiet st"
  using assms exists_child_isDirectory(2)[OF assms]
  by (simp add: reconcile_def andThen_def ifM_def ok_def)

text \<open>The state in which \<^verbatim>\<open>installNpmModules\<close> starts, for each of the three ways through
  \<^verbatim>\<open>updateDependencies\<close>: a directory that does not exist, a directory without
  \<^verbatim>\<open>npm-shrinkwrap.json\<close>, and a directory that is updated in place.\<close>

lemma reconcile_install_throws:
  assumes
    "(\<not> files_exists dir st \<and>
        st0 = (if quiet then st else snd (logUpdateDependencies pn deps st))) \<or>
     (dir \<noteq> [] \<and> files_exists dir st \<and> \<not> files_exists (dir @ [''npm-shrinkwrap.json'']) st \<and>
        st0 = (if quiet then snd (files_rm_recursive dir st)
               else snd (logUpdateDependencies pn deps (snd (files_rm_recursive dir st))))) \<or>
     (files_exists (dir @ [''npm-shrinkwrap.json'']) st \<and>
        fst (rebuildOnNodeChange e dir st) = Inr () \<and>
        st0 = snd (recreateWithoutCopies dir (snd (rebuildOnNodeChange e dir st))))"
    "installNpmModules e deps pn dir st0 = (Inl ex, st')"
  shows "reconcile e pn dir deps quiet st = (Inl ex, st')"
  using assms(1)
proof (elim disjE conjE)
  assume "\<not> files_exists dir st"
    "st0 = (if quiet then st else snd (logUpdateDependencies pn deps st))"
  then show ?thesis
    using assms(2) by (simp add: reconcile_fresh createFresh_install_throws)
next
  assume "dir \<noteq> []" "files_exists dir st" "\<not> files_exists (dir @ [''npm-shrinkwrap.json'']) st"
    "st0 = (if quiet then snd (files_rm_recursive dir st)
            else snd (logUpdateDependencies pn deps (snd (files_rm_recursive dir st))))"
  then show ?thesis
    using assms(2) by (simp add: reconcile_corrupted createFresh_install_throws)
next
  assume h: "files_exists (dir @ [''npm-shrinkwrap.json'']) st"
    "fst (rebuildOnNodeChange e dir st) = Inr ()"
    "st0 = snd (recreateWithoutCopies dir (snd (rebuildOnNodeChange e dir st)))"
  from h(2) have "rebuildOnNodeChange e dir st = (Inr (), snd (rebuildOnNodeChange e dir st))"
    by (simp add: prod_eq_iff)
  from updateExisting_install_throws[OF h(1) this] assms(2) h(3) show ?thesis
    by (simp add: reconcile_incremental[OF h(1)])
qed

text \<open>
  C6. After a successful \<^verbatim>\<open>npm install\<close>, \<^verbatim>\<open>installNpmModules\<close> goes on with the search for
  colons. On \<^verbatim>\<open>win32\<close> there is no search and the step succeeds whatever \<^verbatim>\<open>node_modules\<close>
  holds. On any other platform the step succeeds when no path below \<^verbatim>\<open>node_modules\<close> has
  a colon, and otherwise reports one message and throws \<^verbatim>\<open>NpmFailure\<close>. Whichever way
  \<^verbatim>\<open>updateDependencies\<close> reached the install (a directory that did not exist, a directory
  without \<^verbatim>\<open>npm-shrinkwrap.json\<close> that it deleted first, or a directory updated in place),
  when the install succeeds on a platform other than \<^verbatim>\<open>win32\<close> and leaves a path with a colon
  below \<^verbatim>\<open>node_modules\<close>, \<^verbatim>\<open>updateDependencies\<close> returns false, in the state that the install
  left and with that one message added. The message lists the paths themselves when there
  are at most ten, and else the first ten followed by one line with the number of the
  paths left out, written in decimal.
\<close>

theorem colon_check:
  "(process_platform e = ''win32'' \<longrightarrow> checkColons e dir st = (Inr (), st))
   \<and> (process_platform e \<noteq> ''win32'' \<and>
       fs_lookup (st_fs st) (dir @ [''node_modules'']) = Some (Dir es) \<longrightarrow>
        (let paths = filter hasColon (map pathString (relPaths es)) in
         checkColons e dir st =
           (if paths = [] then (Inr (), st)
            else (Inl NpmFailure, st\<lparr>st_errors := st_errors st @ [Text (colonMessage paths)]\<rparr>))))
   \<and> (\<forall>result st1. runInstall e deps pn dir st = (Inr result, st1) \<and> success result \<longrightarrow>
         installNpmModules e deps pn dir st = checkColons e dir st1)
   \<and> (deps \<noteq> [] \<and> reconcile e pn dir deps quiet st = (Inl NpmFailure, st') \<longrightarrow>
         updateDependencies e pn dir (Some deps) quiet st = (Inr False, st'))
   \<and> (\<forall>st0 result st1 es1.
         deps \<noteq> [] \<and> process_platform e \<noteq> ''win32'' \<and>
         ((\<not> files_exists dir st \<and>
             st0 = (if quiet then st else snd (logUpdateDependencies pn deps st))) \<or>
          (dir \<noteq> [] \<and> files_exists dir st \<and>
             \<not> files_exists (dir @ [''npm-shrinkwrap.json'']) st \<and>
             st0 = (if quiet then snd (files_rm_recursive dir st)
                    else snd (logUpdateDependencies pn deps (snd (files_rm_recursive dir st))))) \<or>
          (files_exists (dir @ [''npm-shrinkwrap.json'']) st \<and>
             fst (rebuildOnNodeChange e dir st) = Inr () \<and>
             st0 = snd (recreateWithoutCopies dir (snd (rebuildOnNodeChange e dir st))))) \<and>
         runInstall e deps pn dir st0 = (Inr result, st1) \<and> success result \<and>
         fs_lookup (st_fs st1) (dir @ [''node_modules'']) = Some (Dir es1) \<and>
         filter hasColon (map pathString (relPaths es1)) \<noteq> [] \<longrightarrow>
         updateDependencies e pn dir (Some deps) quiet st =
           (Inr False,
            st1\<lparr>st_errors := st_errors st1 @
               [Text (colonMessage (filter hasColon (map pathString (relPaths es1))))]\<rparr>))
   \<and> (\<forall>st0 result st1.
         process_platform e = ''win32'' \<and>
         runInstall e deps pn dir st0 = (Inr result, st1) \<and> success result \<longrightarrow>
         installNpmModules e deps pn dir st0 = (Inr (), st1))
   \<and> colonMessage ps =
       ''Some filenames in your package have invalid characters.'' @ newline @
       ''The following file paths have colons, ':', which won't work on Windows:'' @ newline @
       joinWith newline (firstTen ps)
   \<and> (length ps \<le> 10 \<longrightarrow> firstTen ps = ps)
   \<and> (10 < length ps \<longrightarrow>
        firstTen ps =
          take 10 ps @ [''... '' @ decimal (length (drop 10 ps)) @ '' paths omitted.''])
   \<and> decimalValue (decimal n) = n"
proof (intro conjI impI allI)
  show "checkColons e dir st = (Inr (), st)" if "process_platform e = ''win32''"
    using that by (simp add: checkColons_def ok_def)
  show "let paths = filter hasColon (map pathString (relPaths es)) in
         checkColons e dir st =
           (if paths = [] then (Inr (), st)
            else (Inl NpmFailure, st\<lparr>st_errors := st_errors st @ [Text (colonMessage paths)]\<rparr>))"
    if "process_platform e \<noteq> ''win32'' \<and>
       fs_lookup (st_fs st) (dir @ [''node_modules'']) = Some (Dir es)"
    using that checkColons_eq[of e st dir es] by (simp add: Let_def)
  show "installNpmModules e deps pn dir st = checkColons e dir st1"
    if "runInstall e deps pn dir st = (Inr result, st1) \<and> success result" for result st1
    using that by (simp add: installNpmModules_success)
  show "updateDependencies e pn dir (Some deps) quiet st = (Inr False, st')"
    if "deps \<noteq> [] \<and> reconcile e pn dir deps quiet st = (Inl NpmFailure, st')"
    using that by (simp add: updateDependencies_NpmFailure)
  show "updateDependencies e pn dir (Some deps) quiet st =
           (Inr False,
            st1\<lparr>st_errors := st_errors st1 @
               [Text (colonMessage (filter hasColon (map pathString (relPaths es1))))]\<rparr>)"
    if h: "deps \<noteq> [] \<and> process_platform e \<noteq> ''win32'' \<and>
         ((\<not> files_exists dir st \<and>
             st0 = (if quiet then st else snd (logUpdateDependencies pn deps st))) \<or>
          (dir \<noteq> [] \<and> files_exists dir st \<and>
             \<not> files_exists (dir @ [''npm-shrinkwrap.json'']) st \<and>
             st0 = (if quiet then snd (files_rm_recursive dir st)
                    else snd (logUpdateDependencies pn deps (snd (files_rm_recursive dir st))))) \<or>
          (files_exists (dir @ [''npm-shrinkwrap.json'']) st \<and>
             fst (rebuildOnNodeChange e dir st) = Inr () \<and>
             st0 = snd (recreateWithoutCopies dir (snd (rebuildOnNodeChange e dir st))))) \<and>
         runInstall e deps pn dir st0 = (Inr result, st1) \<and> success result \<and>
         fs_lookup (st_fs st1) (dir @ [''node_modules'']) = Some (Dir es1) \<and>
         filter hasColon (map pathString (relPaths es1)) \<noteq> []"
    for st0 result st1 es1
  proof -
    from h have run: "runInstall e deps pn dir st0 = (Inr result, st1)" "success result"
      and col: "process_platform e \<noteq> ''win32''"
        "fs_lookup (st_fs st1) (dir @ [''node_modules'']) = Some (Dir es1)"
        "filter hasColon (map pathString (relPaths es1)) \<noteq> []"
      and deps: "deps \<noteq> []"
      by simp_all
    have "installNpmModules e deps pn dir st0 =
           (Inl NpmFailure,
            st1\<lparr>st_errors := st_errors st1 @
               [Text (colonMessage (filter hasColon (map pathString (relPaths es1))))]\<rparr>)"
      using col(3) by (simp add: installNpmModules_success[OF run] checkColons_eq[OF col(1,2)])
    moreover from h have
      "(\<not> files_exists dir st \<and>
             st0 = (if quiet then st else snd (logUpdateDependencies pn deps st))) \<or>
          (dir \<noteq> [] \<and> files_exists dir st \<and>
             \<not> files_exists (dir @ [''npm-shrinkwrap.json'']) st \<and>
             st0 = (if quiet then snd (files_rm_recursive dir st)
                    else snd (logUpdateDependencies pn deps (snd (files_rm_recursive dir st))))) \<or>
          (files_exists (dir @ [''npm-shrinkwrap.json'']) st \<and>
             fst (rebuildOnNodeChange e dir st) = Inr () \<and>
             st0 = snd (recreateWithoutCopies dir (snd (rebuildOnNodeChange e dir st))))"
      by blast
    ultimately have "reconcile e pn dir deps quiet st =
           (Inl NpmFailure,
            st1\<lparr>st_errors := st_errors st1 @
               [Text (colonMessage (filter hasColon (map pathString (relPaths es1))))]\<rparr>)"
      by (rule reconcile_install_throws[rotated])
    with deps show ?thesis by (rule updateDependencies_NpmFailure)
  qed
  show "installNpmModules e deps pn dir st0 = (Inr (), st1)"
    if "process_platform e = ''win32'' \<and>
         runInstall e deps pn dir st0 = (Inr result, st1) \<and> success result"
    for st0 result st1
    using that installNpmModules_success[of e deps pn dir st0 result st1]
    by (simp add: checkColons_def ok_def)
  show "colonMessage ps =
       ''Some filenames in your package have invalid characters.'' @ newline @
       ''The following file paths have colons, ':', which won't work on Windows:'' @ newline @
       joinWith newline (firstTen ps)"
    by (simp add: colonMessage_def)
  show "firstTen ps = ps" if "length ps \<le> 10"
    using that by (rule firstTen_short)
  show "firstTen ps =
          take 10 ps @ [''... '' @ decimal (length (drop 10 ps)) @ '' paths omitted.'']"
    if "10 < length ps"
    using that by (rule firstTen_long)
  show "decimalValue (decimal n) = n"
    by (rule decimalValue_decimal)
qed

theorem colon_check_witness:
  "process_platform (colonEnv ''linux'' ''v4.4.7'') \<noteq> ''win32''
   \<and> fs_lookup (st_fs (freshState colonFs)) ([''pkg'', ''.npm''] @ [''node_modules'']) =
       Some (Dir colonFiles)
   \<and> filter hasColon (map pathString (relPaths colonFiles)) =
       [''a:x'', ''b:x'', ''c:x'', ''d:x'', ''e:x'', ''f:x'', ''g:x'', ''h:x'', ''i:x'', ''j:x'',
        ''k:x'', ''lib/l:x'']
   \<and> checkColons (colonEnv ''linux'' ''v4.4.7'') [''pkg'', ''.npm''] (freshState colonFs) =
       (Inl NpmFailure,
        (freshState colonFs)
          \<lparr>st_errors := [Text (colonMessage
             [''a:x'', ''b:x'', ''c:x'', ''d:x'', ''e:x'', ''f:x'', ''g:x'', ''h:x'', ''i:x'',
              ''j:x'', ''k:x'', ''lib/l:x''])]\<rparr>)
   \<and> colonMessage [''a:x'', ''b:x'', ''c:x'', ''d:x'', ''e:x'', ''f:x'', ''g:x'', ''h:x'', ''i:x'',
              ''j:x'', ''k:x'', ''lib/l:x''] =
       ''Some filenames in your package have invalid characters.'' @ newline @
       ''The following file paths have colons, ':', which won't work on Windows:'' @ newline @
       ''a:x'' @ newline @ ''b:x'' @ newline @ ''c:x'' @ newline @ ''d:x'' @ newline @
       ''e:x'' @ newline @ ''f:x'' @ newline @ ''g:x'' @ newline @ ''h:x'' @ newline @
       ''i:x'' @ newline @ ''j:x'' @ newline @ ''... 2 paths omitted.''
   \<and> process_platform (colonEnv ''win32'' ''v4.4.7'') = ''win32''
   \<and> checkColons (colonEnv ''win32'' ''v4.4.7'') [''pkg'', ''.npm''] (freshState colonFs) =
       (Inr (), freshState colonFs)
   \<and> \<not> files_exists [''pkg'', ''.npm''] (freshState (Dir []))
   \<and> updateDependencies (colonEnv ''linux'' ''v4.4.7'') ''pkg'' [''pkg'', ''.npm'']
        (Some [(''a'', ''1.0.0'')]) True (freshState (Dir [])) =
       (Inr False,
        \<lparr>st_fs = Dir [(''pkg'',
                      Dir [(''.npm'',
                            Dir [(''node_modules'', Dir colonFiles),
                                 (''package.json'', File (''{}'' @ newline))])])],
         st_errors = [Text (colonMessage
             [''a:x'', ''b:x'', ''c:x'', ''d:x'', ''e:x'', ''f:x'', ''g:x'', ''h:x'', ''i:x'',
              ''j:x'', ''k:x'', ''lib/l:x''])],
         st_log = [],
         st_trace = [MkdirP [''pkg'', ''.npm'', ''node_modules''],
                     WriteFile [''pkg'', ''.npm'', ''package.json''] (''{}'' @ newline),
                     GetUrl ''http://registry.npmjs.org'',
                     RunNpm [''ls'', ''--json''] [''pkg'', ''.npm''],
                     RunNpm [''install'', ''a@1.0.0''] [''pkg'', ''.npm'']]\<rparr>)
   \<and> files_exists ([''pkg'', ''.npm''] @ [''npm-shrinkwrap.json'']) (freshState installedFs)
   \<and> fst (updateDependencies (colonEnv ''linux'' ''v0.10.40'') ''pkg'' [''pkg'', ''.npm'']
            (Some [(''a'', ''1.0.0'')]) True (freshState installedFs)) = Inr False
   \<and> st_errors (snd (updateDependencies (colonEnv ''linux'' ''v0.10.40'') ''pkg'' [''pkg'', ''.npm'']
            (Some [(''a'', ''1.0.0'')]) True (freshState installedFs))) =
       [Text (colonMessage
             [''a:x'', ''b:x'', ''c:x'', ''d:x'', ''e:x'', ''f:x'', ''g:x'', ''h:x'', ''i:x'',
              ''j:x'', ''k:x'', ''lib/l:x''])]
   \<and> fst (installNpmModules (colonEnv ''win32'' ''v4.4.7'') [(''a'', ''1.0.0'')] ''pkg'' [''pkg'', ''.npm'']
            (freshState (Dir []))) = Inr ()
   \<and> decimalValue (decimal 1234) = 1234"
proof -
  let ?ps = "[''a:x'', ''b:x'', ''c:x'', ''d:x'', ''e:x'', ''f:x'', ''g:x'', ''h:x'', ''i:x'',
              ''j:x'', ''k:x'', ''lib/l:x'']"
  let ?L = "colonEnv ''linux'' ''v4.4.7''" and ?W = "colonEnv ''win32'' ''v4.4.7''"
  let ?K = "colonEnv ''linux'' ''v0.10.40''"
  let ?dir = "[''pkg'', ''.npm'']" and ?deps = "[(''a'', ''1.0.0'')] :: (string \<times> string) list"
  let ?R = "\<lparr>success = True, error = [], stdout = ''{}'', stderr = []\<rparr>"
  have p: "process_platform ?L \<noteq> ''win32''" "process_platform ?W = ''win32''"
    by (simp_all add: colonEnv_def)
  have pk: "process_platform ?K \<noteq> ''win32''"
    by (simp add: colonEnv_def)
  have l: "fs_lookup (st_fs (freshState colonFs)) (?dir @ [''node_modules'']) =
       Some (Dir colonFiles)"
    by (simp add: freshState_def colonFs_def)
  have f: "filter hasColon (map pathString (relPaths colonFiles)) = ?ps"
    by (simp add: colonFiles_def hasColon_def pathString_def)
  have ne: "filter hasColon (map pathString (relPaths colonFiles)) \<noteq> []"
    by (simp add: f)
  have d: "decimal (Suc (Suc 0)) = ''2''"
    by (simp add: decimal.simps[of "Suc (Suc 0)"] digitChar_def)
  have g: "10 < length ?ps" by simp
  have dn: "?deps \<noteq> []" by simp
  have sr: "success ?R" by simp
  note a = colon_check[where e = ?L and dir = ?dir
      and st = "freshState colonFs" and es = colonFiles, THEN conjunct2, THEN conjunct1,
      rule_format, OF conjI[OF p(1) l]]
  note b = colon_check[where e = ?W and dir = ?dir
      and st = "freshState colonFs", THEN conjunct1, rule_format, OF p(2)]
  note m = colon_check[where ps = ?ps, THEN conjunct2, THEN conjunct2, THEN conjunct2,
      THEN conjunct2, THEN conjunct2, THEN conjunct2, THEN conjunct1]
  note t = colon_check[where ps = ?ps, THEN conjunct2, THEN conjunct2, THEN conjunct2,
      THEN conjunct2, THEN conjunct2, THEN conjunct2, THEN conjunct2, THEN conjunct2,
      THEN conjunct1, rule_format, OF g]
  note v = colon_check[where n = 1234, THEN conjunct2, THEN conjunct2, THEN conjunct2,
      THEN conjunct2, THEN conjunct2, THEN conjunct2, THEN conjunct2, THEN conjunct2,
      THEN conjunct2]
  let ?sa = "freshState (Dir [])"
  let ?sb = "\<lparr>st_fs = Dir [(''pkg'',
                      Dir [(''.npm'',
                            Dir [(''node_modules'', Dir colonFiles),
                                 (''package.json'', File (''{}'' @ newline))])])],
         st_errors = [], st_log = [],
         st_trace = [MkdirP [''pkg'', ''.npm'', ''node_modules''],
                     WriteFile [''pkg'', ''.npm'', ''package.json''] (''{}'' @ newline),
                     GetUrl ''http://registry.npmjs.org'',
                     RunNpm [''ls'', ''--json''] [''pkg'', ''.npm''],
                     RunNpm [''install'', ''a@1.0.0''] [''pkg'', ''.npm'']]\<rparr>"
  have x0: "\<not> files_exists ?dir ?sa"
    by (simp add: files_exists_def freshState_def)
  have r0: "runInstall ?L ?deps ''pkg'' ?dir ?sa = (Inr ?R, ?sb)"
    by (simp add: run_defs colonEnv_def)
  have l0: "fs_lookup (st_fs ?sb) (?dir @ [''node_modules'']) = Some (Dir colonFiles)"
    by simp
  have H0: "?deps \<noteq> [] \<and> process_platform ?L \<noteq> ''win32'' \<and>
         ((\<not> files_exists ?dir ?sa \<and>
             ?sa = (if True then ?sa else snd (logUpdateDependencies ''pkg'' ?deps ?sa))) \<or>
          (?dir \<noteq> [] \<and> files_exists ?dir ?sa \<and>
             \<not> files_exists (?dir @ [''npm-shrinkwrap.json'']) ?sa \<and>
             ?sa = (if True then snd (files_rm_recursive ?dir ?sa)
                    else snd (logUpdateDependencies ''pkg'' ?deps (snd (files_rm_recursive ?dir ?sa))))) \<or>
          (files_exists (?dir @ [''npm-shrinkwrap.json'']) ?sa \<and>
             fst (rebuildOnNodeChange ?L ?dir ?sa) = Inr () \<and>
             ?sa = snd (recreateWithoutCopies ?dir (snd (rebuildOnNodeChange ?L ?dir ?sa))))) \<and>
         runInstall ?L ?deps ''pkg'' ?dir ?sa = (Inr ?R, ?sb) \<and> success ?R \<and>
         fs_lookup (st_fs ?sb) (?dir @ [''node_modules'']) = Some (Dir colonFiles) \<and>
         filter hasColon (map pathString (relPaths colonFiles)) \<noteq> []"
    using dn p(1) x0 r0 l0 ne by simp
  note c0 = colon_check[where e = ?L and dir = ?dir and st = ?sa and deps = ?deps
      and pn = "''pkg''" and quiet = True, THEN conjunct2, THEN conjunct2, THEN conjunct2,
      THEN conjunct2, THEN conjunct1, rule_format, OF H0]
  let ?i = "freshState installedFs"
  let ?ja = "snd (recreateWithoutCopies ?dir (snd (rebuildOnNodeChange ?K ?dir ?i)))"
  let ?jb = "snd (runInstall ?K ?deps ''pkg'' ?dir ?ja)"
  have xi: "files_exists (?dir @ [''npm-shrinkwrap.json'']) ?i"
    by (simp add: files_exists_def freshState_def installedFs_def)
  have bi: "fst (rebuildOnNodeChange ?K ?dir ?i) = Inr ()"
    by (simp add: run_defs colonEnv_def installedFs_def)
  have i0: "?ja = ?i"
    by (simp add: run_defs colonEnv_def installedFs_def)
  have ri: "fst (runInstall ?K ?deps ''pkg'' ?dir ?ja) = Inr ?R"
    "fs_lookup (st_fs ?jb) (?dir @ [''node_modules'']) = Some (Dir colonFiles)"
    "st_errors ?jb = []"
    unfolding i0 by (simp_all add: run_defs colonEnv_def installedFs_def)
  from ri(1) have ri': "runInstall ?K ?deps ''pkg'' ?dir ?ja = (Inr ?R, ?jb)"
    by (simp add: prod_eq_iff)
  have Hi: "?deps \<noteq> [] \<and> process_platform ?K \<noteq> ''win32'' \<and>
         ((\<not> files_exists ?dir ?i \<and>
             ?ja = (if True then ?i else snd (logUpdateDependencies ''pkg'' ?deps ?i))) \<or>
          (?dir \<noteq> [] \<and> files_exists ?dir ?i \<and>
             \<not> files_exists (?dir @ [''npm-shrinkwrap.json'']) ?i \<and>
             ?ja = (if True then snd (files_rm_recursive ?dir ?i)
                    else snd (logUpdateDependencies ''pkg'' ?deps (snd (files_rm_recursive ?dir ?i))))) \<or>
          (files_exists (?dir @ [''npm-shrinkwrap.json'']) ?i \<and>
             fst (rebuildOnNodeChange ?K ?dir ?i) = Inr () \<and>
             ?ja = snd (recreateWithoutCopies ?dir (snd (rebuildOnNodeChange ?K ?dir ?i))))) \<and>
         runInstall ?K ?deps ''pkg'' ?dir ?ja = (Inr ?R, ?jb) \<and> success ?R \<and>
         fs_lookup (st_fs ?jb) (?dir @ [''node_modules'']) = Some (Dir colonFiles) \<and>
         filter hasColon (map pathString (relPaths colonFiles)) \<noteq> []"
    by (intro conjI disjI2 refl dn pk xi bi ri' ri(2) ne sr)
  note ci = colon_check[where e = ?K and dir = ?dir and st = ?i and deps = ?deps
      and pn = "''pkg''" and quiet = True, THEN conjunct2, THEN conjunct2, THEN conjunct2,
      THEN conjunct2, THEN conjunct1, rule_format, OF Hi]
  have rw: "fst (runInstall ?W ?deps ''pkg'' ?dir ?sa) = Inr ?R"
    by (simp add: run_defs colonEnv_def)
  then have rw': "process_platform ?W = ''win32'' \<and>
       runInstall ?W ?deps ''pkg'' ?dir ?sa =
         (Inr ?R, snd (runInstall ?W ?deps ''pkg'' ?dir ?sa)) \<and> success ?R"
    using p(2) by (simp add: prod_eq_iff)
  note w = colon_check[where e = ?W and dir = ?dir and deps = ?deps and pn = "''pkg''",
      THEN conjunct2, THEN conjunct2, THEN conjunct2, THEN conjunct2, THEN conjunct2,
      THEN conjunct1, rule_format, OF rw']
  have msg: "colonMessage ?ps =
       ''Some filenames in your package have invalid characters.'' @ newline @
       ''The following file paths have colons, ':', which won't work on Windows:'' @ newline @
       ''a:x'' @ newline @ ''b:x'' @ newline @ ''c:x'' @ newline @ ''d:x'' @ newline @
       ''e:x'' @ newline @ ''f:x'' @ newline @ ''g:x'' @ newline @ ''h:x'' @ newline @
       ''i:x'' @ newline @ ''j:x'' @ newline @ ''... 2 paths omitted.''"
    using m t by (simp add: d)
  have A: "checkColons ?L ?dir (freshState colonFs) =
       (Inl NpmFailure, (freshState colonFs)\<lparr>st_errors := [Text (colonMessage ?ps)]\<rparr>)"
    using a by (simp add: f Let_def freshState_def)
  have C0: "updateDependencies ?L ''pkg'' ?dir (Some ?deps) True ?sa =
       (Inr False, ?sb\<lparr>st_errors := [Text (colonMessage ?ps)]\<rparr>)"
    using c0 by (simp add: f)
  have Ci: "fst (updateDependencies ?K ''pkg'' ?dir (Some ?deps) True ?i) = Inr False"
    "st_errors (snd (updateDependencies ?K ''pkg'' ?dir (Some ?deps) True ?i)) =
       [Text (colonMessage ?ps)]"
    using ci ri(3) by (simp_all add: f)
  have Wn: "fst (installNpmModules ?W ?deps ''pkg'' ?dir ?sa) = Inr ()"
    using w by simp
  show ?thesis
    using p l f A msg b x0 C0 xi Ci Wn v by simp
qed

section \<open>Portability\<close>

lemma relPaths_nonempty: "p \<in> set (relPaths es) \<Longrightarrow> p \<noteq> []"
  by (induction es arbitrary: p rule: relPaths.induct) auto

lemma itemNames_simps:
  "itemNames [] = []"
  "itemNames ((k, File s) # es) = k # itemNames es"
  "itemNames ((k, Dir sub) # es) = k # itemNames sub @ itemNames es"
proof -
  have "map last (map ((#) k) (relPaths sub)) = map last (relPaths sub)"
    by (induction "relPaths sub") (auto dest: relPaths_nonempty)
  then show "itemNames ((k, Dir sub) # es) = k # itemNames sub @ itemNames es"
    by (simp add: itemNames_def)
qed (simp_all add: itemNames_def)

lemma upToFirst_simps:
  "upToFirst P [] = []"
  "P x \<Longrightarrow> upToFirst P (x # xs) = [x]"
  "\<not> P x \<Longrightarrow> upToFirst P (x # xs) = x # upToFirst P xs"
  by (simp_all add: upToFirst_def)

lemma upToFirst_none: "\<forall>x \<in> set xs. \<not> P x \<Longrightarrow> upToFirst P xs = xs"
  by (induction xs) (auto simp: upToFirst_simps)

lemma upToFirst_append:
  "upToFirst P (xs @ ys) = (if \<exists>x \<in> set xs. P x then upToFirst P xs else xs @ upToFirst P ys)"
proof (induction xs)
  case Nil
  then show ?case by simp
next
  case (Cons a xs)
  then show ?case by (cases "P a") (auto simp: upToFirst_simps)
qed

lemma isNative_nonempty: "isNative n \<Longrightarrow> n \<noteq> []"
  by (auto simp: isNative_def)

lemma find_item_spec:
  assumes "[] \<notin> set (itemNames es)"
  shows "fst (find_item es) = upToFirst isNative (itemNames es) \<and>
         (truthy (snd (find_item es)) \<longleftrightarrow> (\<exists>n \<in> set (itemNames es). isNative n))"
  using assms
proof (induction es rule: find_item.induct)
  case 1
  then show ?case by (simp add: itemNames_simps upToFirst_simps truthy_def)
next
  case (2 itemName s rest)
  then show ?case
    by (auto simp: itemNames_simps upToFirst_simps truthy_def isNative_def[symmetric]
        split: prod.splits)
next
  case (3 itemName sub rest)
  show ?case
  proof (cases "isNative itemName")
    case True
    then show ?thesis
      by (auto simp: itemNames_simps upToFirst_simps truthy_def isNative_def[symmetric]
          dest: isNative_nonempty)
  next
    case False
    from 3 have ne: "itemName \<noteq> []" "[] \<notin> set (itemNames sub)" "[] \<notin> set (itemNames rest)"
      by (auto simp: itemNames_simps)
    from False have nf: "\<not> suffix ''.node'' itemName" by (simp add: isNative_def)
    note ih1 = 3(1)[OF nf ne(2)]
    obtain below found where fi: "find_item sub = (below, found)" by (cases "find_item sub")
    show ?thesis
    proof (cases "truthy found")
      case True
      then show ?thesis using False nf ne ih1 fi
        by (auto simp: itemNames_simps upToFirst_simps upToFirst_append truthy_def)
    next
      case nt: False
      note ih2 = 3(2)[OF nf fi[symmetric] nt ne(3)]
      obtain seen r where fr: "find_item rest = (seen, r)" by (cases "find_item rest")
      show ?thesis using False nf ne ih1 ih2 fi fr nt
        by (auto simp: itemNames_simps upToFirst_simps upToFirst_append upToFirst_none)
    qed
  qed
qed

text \<open>
  C9. When \<^verbatim>\<open>node_modules\<close> is a directory (whose items all have names, as in any file
  system), \<^verbatim>\<open>dependenciesArePortable\<close> returns false if and only if the name of some file
  or directory anywhere below \<^verbatim>\<open>node_modules\<close> ends in \<^verbatim>\<open>.node\<close>. The search looks at the
  items depth first, every item before what it holds, and at nothing after the first name
  that ends in \<^verbatim>\<open>.node\<close>. The state is returned as it was.
\<close>

theorem portable_iff_no_native:
  assumes "fs_lookup (st_fs st) (dir @ [''node_modules'']) = Some (Dir es)"
    "[] \<notin> set (itemNames es)"
  shows "dependenciesArePortable dir st =
           (Inr (\<not> (\<exists>n \<in> set (itemNames es). suffix ''.node'' n)), st)
         \<and> fst (search es) = upToFirst (suffix ''.node'') (itemNames es)"
proof -
  have nat: "isNative = suffix ''.node''" by (rule ext) (simp add: isNative_def)
  obtain seen found where fi: "find_item es = (seen, found)" by (cases "find_item es")
  from find_item_spec[OF assms(2)] show ?thesis
    using assms(1)
    by (simp add: dependenciesArePortable_def search_def nat fi truthy_def)
qed

theorem portable_iff_no_native_witness:
  "fs_lookup (st_fs (freshState installedFs)) ([''pkg'', ''.npm''] @ [''node_modules'']) =
     Some (Dir [(''.package.json'', File ''{}''),
                (''.npm-shrinkwrap.json'', File ''{}''),
                (''.node_version'', File (''v0.10.*'' @ newline)),
                (''gcd'',
                 Dir [(''package.json'', File ''{}''),
                      (''build'', Dir [(''gcd.node'', File ''ELF'')]),
                      (''index.js'', File ''exports'')])])
   \<and> dependenciesArePortable [''pkg'', ''.npm''] (freshState installedFs) =
       (Inr False, freshState installedFs)
   \<and> fst (search [(''.package.json'', File ''{}''),
                (''.npm-shrinkwrap.json'', File ''{}''),
                (''.node_version'', File (''v0.10.*'' @ newline)),
                (''gcd'',
                 Dir [(''package.json'', File ''{}''),
                      (''build'', Dir [(''gcd.node'', File ''ELF'')]),
                      (''index.js'', File ''exports'')])]) =
       [''.package.json'', ''.npm-shrinkwrap.json'', ''.node_version'', ''gcd'',
        ''package.json'', ''build'', ''gcd.node'']"
proof -
  have h1: "fs_lookup (st_fs (freshState installedFs)) ([''pkg'', ''.npm''] @ [''node_modules'']) =
     Some (Dir [(''.package.json'', File ''{}''),
                (''.npm-shrinkwrap.json'', File ''{}''),
                (''.node_version'', File (''v0.10.*'' @ newline)),
                (''gcd'',
                 Dir [(''package.json'', File ''{}''),
                      (''build'', Dir [(''gcd.node'', File ''ELF'')]),
                      (''index.js'', File ''exports'')])])"
    by (simp add: freshState_def installedFs_def)
  have h2: "[] \<notin> set (itemNames [(''.package.json'', File ''{}''),
                (''.npm-shrinkwrap.json'', File ''{}''),
                (''.node_version'', File (''v0.10.*'' @ newline)),
                (''gcd'',
                 Dir [(''package.json'', File ''{}''),
                      (''build'', Dir [(''gcd.node'', File ''ELF'')]),
                      (''index.js'', File ''exports'')])])"
    by (simp add: itemNames_def)
  show ?thesis
    using h1 portable_iff_no_native[OF h1 h2]
    by (simp add: itemNames_def upToFirst_def suffix_def)
qed

end
